theory Spec2Isabelle
  imports Complex_Main "HOL-Library.Sublist"
begin

section \<open>JavaScript containers and strings\<close>

text \<open>
  A JavaScript \<^verbatim>\<open>Map\<close> (and a plain object used as a dictionary) iterates in insertion
  order. It is modelled as an association list: \<open>map_set\<close> replaces the value of a key that
  is present where it stands and appends a new key at the end, \<open>map_delete\<close> drops the key,
  \<open>map_values\<close> is \<^verbatim>\<open>.values()\<close> and \<open>length\<close> is \<^verbatim>\<open>.size\<close>.
\<close>

type_synonym ('k, 'v) jsmap = "('k \<times> 'v) list"

definition map_get :: "('k, 'v) jsmap \<Rightarrow> 'k \<Rightarrow> 'v option" where
  "map_get m k = map_of m k"

definition map_has :: "('k, 'v) jsmap \<Rightarrow> 'k \<Rightarrow> bool" where
  "map_has m k = (map_of m k \<noteq> None)"

fun map_set :: "'k \<Rightarrow> 'v \<Rightarrow> ('k, 'v) jsmap \<Rightarrow> ('k, 'v) jsmap" where
  "map_set k v [] = [(k, v)]"
| "map_set k v ((k', v') # m) =
     (if k' = k then (k, v) # m else (k', v') # map_set k v m)"

definition map_delete :: "'k \<Rightarrow> ('k, 'v) jsmap \<Rightarrow> ('k, 'v) jsmap" where
  "map_delete k m = filter (\<lambda>kv. fst kv \<noteq> k) m"

definition map_values :: "('k, 'v) jsmap \<Rightarrow> 'v list" where
  "map_values m = map snd m"

definition map_keys :: "('k, 'v) jsmap \<Rightarrow> 'k list" where
  "map_keys m = map fst m"

text \<open>\<^verbatim>\<open>String.prototype.toLowerCase\<close> on the ASCII letters (a \<open>char\<close> is a byte).\<close>

definition lower_char :: "char \<Rightarrow> char" where
  "lower_char c =
     (let n = (of_char c :: nat)
      in if 65 \<le> n \<and> n \<le> 90 then char_of (n + 32) else c)"

definition toLowerCase :: "string \<Rightarrow> string" where
  "toLowerCase s = map lower_char s"

text \<open>\<^verbatim>\<open>Array.prototype.find\<close>: the first element that satisfies the predicate.\<close>

fun js_find :: "('a \<Rightarrow> bool) \<Rightarrow> 'a list \<Rightarrow> 'a option" where
  "js_find P [] = None"
| "js_find P (x # xs) = (if P x then Some x else js_find P xs)"

text \<open>\<^verbatim>\<open>s.split(sep).filter(p => p.length > 0)\<close> for a one-character separator.\<close>

fun split_on :: "char \<Rightarrow> string \<Rightarrow> string \<Rightarrow> string list" where
  "split_on c acc [] = [rev acc]"
| "split_on c acc (x # xs) =
     (if x = c then rev acc # split_on c [] xs else split_on c (x # acc) xs)"

definition js_split :: "char \<Rightarrow> string \<Rightarrow> string list" where
  "js_split c s = split_on c [] s"

definition is_space :: "char \<Rightarrow> bool" where
  "is_space c = (c = CHR '' '' \<or> c = CHR 0x09 \<or> c = CHR 0x0A \<or> c = CHR 0x0D)"

definition js_trim :: "string \<Rightarrow> string" where
  "js_trim s = rev (dropWhile is_space (rev (dropWhile is_space s)))"

section \<open>Folder usage tree (topicManager.ts, lines 882--1120)\<close>

text \<open>
  The functions of Node's \<^verbatim>\<open>path\<close> module and the editor's configuration are outside the
  repository; the model takes them as a record of functions and as a record of settings.
\<close>

record pathlib =
  normalize :: "string \<Rightarrow> string"
  isAbsolute :: "string \<Rightarrow> bool"
  resolve :: "string \<Rightarrow> string \<Rightarrow> string"
  relative :: "string \<Rightarrow> string \<Rightarrow> string"
  dirname :: "string \<Rightarrow> string"
  basename :: "string \<Rightarrow> string"
  extname :: "string \<Rightarrow> string"
  join :: "string \<Rightarrow> string \<Rightarrow> string"
  sep :: char

record config =
  watchFolders :: "string list"
  legacyWatchFolder :: string
  workspaceRoot :: string

datatype FolderChunkNode =
  FolderChunkNode (nodeName: string) (nodePath: string) (isFile: bool)
    (chunkCount: int) (children: "(string \<times> FolderChunkNode) list")

record FolderChunkStats =
  roots :: "(string, FolderChunkNode) jsmap"
  totalChunks :: int
  lastUpdated :: nat

text \<open>\<open>getWatchFolderForPath\<close>: the first configured folder that contains the file.\<close>

fun firstWatchFolder :: "pathlib \<Rightarrow> string \<Rightarrow> string \<Rightarrow> string list \<Rightarrow> (string \<times> string) option" where
  "firstWatchFolder lib workspaceDir normalizedFilePath [] = None"
| "firstWatchFolder lib workspaceDir normalizedFilePath (folder # rest) =
     (let trimmedFolder = js_trim folder in
      if length trimmedFolder = 0 then firstWatchFolder lib workspaceDir normalizedFilePath rest
      else
        let resolvedFolder =
              (if isAbsolute lib trimmedFolder then trimmedFolder
               else resolve lib workspaceDir trimmedFolder);
            normalizedWatchFolder = normalize lib resolvedFolder
        in if prefix (normalizedWatchFolder @ [sep lib]) normalizedFilePath
              \<or> normalizedFilePath = normalizedWatchFolder
           then Some (normalizedWatchFolder, basename lib normalizedWatchFolder)
           else firstWatchFolder lib workspaceDir normalizedFilePath rest)"

definition getWatchFolderForPath :: "pathlib \<Rightarrow> config \<Rightarrow> string \<Rightarrow> (string \<times> string) option" where
  "getWatchFolderForPath lib cfg filePath =
     (let allFolders =
            watchFolders cfg @
            (if legacyWatchFolder cfg \<noteq> [] \<and> length (js_trim (legacyWatchFolder cfg)) > 0
             then [legacyWatchFolder cfg] else [])
      in firstWatchFolder lib (workspaceRoot cfg) (normalize lib filePath) allFolders)"

text \<open>
  The root key, the root's display name and the path segments below the root, as both
  \<open>updateFolderChunkStats\<close> and \<open>removeFolderChunkStats\<close> compute them.
\<close>

definition locate :: "pathlib \<Rightarrow> config \<Rightarrow> string \<Rightarrow> string \<times> string \<times> string list" where
  "locate lib cfg filePath =
     (let normalizedFilePath = normalize lib filePath in
      case getWatchFolderForPath lib cfg filePath of
        Some (watchFolder, displayName) \<Rightarrow>
          (watchFolder, displayName,
           filter (\<lambda>p. length p > 0)
             (js_split (sep lib) (relative lib watchFolder normalizedFilePath)))
      | None \<Rightarrow>
          (let parentDir = dirname lib normalizedFilePath
           in (parentDir, basename lib parentDir, [basename lib normalizedFilePath])))"

text \<open>
  The traversal loop of \<open>updateFolderChunkStats\<close> (lines 979--1000), run on the node
  \<open>currentNode\<close>: a missing segment is created, the last segment is marked as a file and
  given the chunk count. The loop never looks at \<open>isFile\<close> of a node it walks through.
\<close>

fun insertPath :: "pathlib \<Rightarrow> string \<Rightarrow> string list \<Rightarrow> int \<Rightarrow> FolderChunkNode \<Rightarrow> FolderChunkNode" where
  "insertPath lib currentPath [] cc node = node"
| "insertPath lib currentPath (part # rest) cc (FolderChunkNode n p f c ch) =
     (let currentPath' = join lib currentPath part;
          isLastPart = (rest = []);
          child = (case map_get ch part of
                     None \<Rightarrow> FolderChunkNode part currentPath' isLastPart 0 []
                   | Some existing \<Rightarrow> existing);
          child' = (if isLastPart
                    then FolderChunkNode (nodeName child) (nodePath child) True cc (children child)
                    else child)
      in FolderChunkNode n p f c (map_set part (insertPath lib currentPath' rest cc child') ch))"

text \<open>
  \<open>recalculateFolderTotals\<close>: \<open>calculateNodeTotal\<close> returns the node as it leaves it and
  its total; \<open>calculateTotals\<close> is the loop over \<^verbatim>\<open>children.values()\<close> adding to the
  running total. A file node is returned as it is: its children, if it has any, are not
  visited.
\<close>

fun calculateNodeTotal :: "FolderChunkNode \<Rightarrow> FolderChunkNode \<times> int"
  and calculateTotals :: "(string \<times> FolderChunkNode) list \<Rightarrow> int \<Rightarrow> (string \<times> FolderChunkNode) list \<times> int" where
  "calculateNodeTotal (FolderChunkNode n p f c ch) =
     (if f then (FolderChunkNode n p f c ch, c)
      else (let (ch', tot) = calculateTotals ch 0
            in (FolderChunkNode n p f tot ch', tot)))"
| "calculateTotals [] tot = ([], tot)"
| "calculateTotals ((k, child) # rest) tot =
     (let (child', t) = calculateNodeTotal child;
          (rest', tot') = calculateTotals rest (tot + t)
      in ((k, child') # rest', tot'))"

definition recalculateFolderTotals :: "FolderChunkStats \<Rightarrow> FolderChunkStats" where
  "recalculateFolderTotals stats =
     (let (roots', totalChunks') = calculateTotals (roots stats) 0
      in stats\<lparr>roots := roots', totalChunks := totalChunks'\<rparr>)"

text \<open>
  \<open>updateFolderChunkStats\<close> on the statistics of one topic (\<open>None\<close>: the topic has none
  yet, and an empty record is created and stored before anything else is done).
\<close>

definition emptyStats :: "nat \<Rightarrow> FolderChunkStats" where
  "emptyStats now = \<lparr>roots = [], totalChunks = 0, lastUpdated = now\<rparr>"

definition updateStats :: "pathlib \<Rightarrow> config \<Rightarrow> nat \<Rightarrow> FolderChunkStats option \<Rightarrow> string \<Rightarrow> int \<Rightarrow> FolderChunkStats" where
  "updateStats lib cfg now old filePath cc =
     (let stats = (case old of None \<Rightarrow> emptyStats now | Some s \<Rightarrow> s);
          (rootKey, rootDisplayName, relativeParts) = locate lib cfg filePath
      in if length relativeParts = 0 then stats
         else
           let rootNode = (case map_get (roots stats) rootKey of
                         None \<Rightarrow> FolderChunkNode rootDisplayName rootKey False 0 []
                       | Some r \<Rightarrow> r);
               rootNode' = insertPath lib rootKey relativeParts cc rootNode;
               stats' = stats\<lparr>roots := map_set rootKey rootNode' (roots stats)\<rparr>
           in (recalculateFolderTotals stats')\<lparr>lastUpdated := now\<rparr>)"

text \<open>
  \<open>removeFolderChunkStats\<close> (lines 1015--1097). The source keeps a stack of
  \<^verbatim>\<open>{parent, childKey}\<close> entries while it walks down; entry \<open>i\<close> is the node reached by
  the first \<open>i\<close> segments together with segment \<open>i\<close>. The model addresses nodes by their
  path below the root: \<open>nodeAt\<close> follows the segments (\<open>None\<close>: a child is missing, the
  source returns there), \<open>deleteAt\<close> is \<^verbatim>\<open>parent.children.delete(childKey)\<close> for the entry
  of the last segment, and \<open>cleanupParents\<close> is the loop from \<^verbatim>\<open>pathStack.length - 2\<close> down
  to 0 with its \<^verbatim>\<open>break\<close>.
\<close>

fun nodeAt :: "string list \<Rightarrow> FolderChunkNode \<Rightarrow> FolderChunkNode option" where
  "nodeAt [] node = Some node"
| "nodeAt (part # rest) node =
     (case map_get (children node) part of
        None \<Rightarrow> None
      | Some child \<Rightarrow> nodeAt rest child)"

fun deleteAt :: "string list \<Rightarrow> FolderChunkNode \<Rightarrow> FolderChunkNode" where
  "deleteAt [] node = node"
| "deleteAt [part] (FolderChunkNode n p f c ch) = FolderChunkNode n p f c (map_delete part ch)"
| "deleteAt (part # rest) (FolderChunkNode n p f c ch) =
     (case map_get ch part of
        None \<Rightarrow> FolderChunkNode n p f c ch
      | Some child \<Rightarrow> FolderChunkNode n p f c (map_set part (deleteAt rest child) ch))"

fun cleanupParents :: "nat \<Rightarrow> string list \<Rightarrow> FolderChunkNode \<Rightarrow> FolderChunkNode" where
  "cleanupParents 0 parts rootNode = rootNode"
| "cleanupParents (Suc i) parts rootNode =
     (case nodeAt (take (Suc i) parts) rootNode of
        None \<Rightarrow> rootNode
      | Some child \<Rightarrow>
          if length (children child) = 0 \<and> \<not> isFile child
          then cleanupParents i parts (deleteAt (take (Suc i) parts) rootNode)
          else rootNode)"

definition removeStats :: "pathlib \<Rightarrow> config \<Rightarrow> nat \<Rightarrow> FolderChunkStats \<Rightarrow> string \<Rightarrow> FolderChunkStats" where
  "removeStats lib cfg now stats filePath =
     (let (rootKey, rootDisplayName, relativeParts) = locate lib cfg filePath
      in if length relativeParts = 0 then stats
         else case map_get (roots stats) rootKey of
           None \<Rightarrow> stats
         | Some rootNode \<Rightarrow>
             (case nodeAt relativeParts rootNode of
                None \<Rightarrow> stats
              | Some fileNode \<Rightarrow>
                  let root1 = deleteAt relativeParts rootNode;
                      root2 = cleanupParents (length relativeParts - 1) relativeParts root1;
                      roots1 = map_set rootKey root2 (roots stats);
                      roots2 = (if length (children root2) = 0 \<and> \<not> isFile root2
                                then map_delete rootKey roots1 else roots1)
                  in (recalculateFolderTotals (stats\<lparr>roots := roots2\<rparr>))\<lparr>lastUpdated := now\<rparr>))"

text \<open>
  The invariant of the tree: every node that is not a file carries the sum of its
  children's chunk counts, at every depth, and the statistics carry the sum of the roots.
\<close>

fun nodeInv :: "FolderChunkNode \<Rightarrow> bool" where
  "nodeInv (FolderChunkNode n p f c ch) =
     ((f \<or> c = sum_list (map (\<lambda>kc. chunkCount (snd kc)) ch))
      \<and> list_all (\<lambda>kc. nodeInv (snd kc)) ch)"

definition statsInv :: "FolderChunkStats \<Rightarrow> bool" where
  "statsInv stats =
     (list_all (\<lambda>kc. nodeInv (snd kc)) (roots stats)
      \<and> totalChunks stats = sum_list (map (\<lambda>kc. chunkCount (snd kc)) (roots stats)))"

text \<open>
  A POSIX instance of the path functions, for absolute paths without a trailing slash:
  \<open>posix_normalize\<close> drops empty and \<^verbatim>\<open>.\<close> segments and resolves \<^verbatim>\<open>..\<close>;
  \<open>posix_relative\<close> is given for the two cases in which the source calls it (the file
  is the folder itself, or lies below it).
\<close>

fun resolve_dots :: "string list \<Rightarrow> string list \<Rightarrow> string list" where
  "resolve_dots acc [] = rev acc"
| "resolve_dots acc (s # ss) =
     (if s = ''..'' then resolve_dots (drop 1 acc) ss else resolve_dots (s # acc) ss)"

definition posix_normalize :: "string \<Rightarrow> string" where
  "posix_normalize p =
     (let segs = resolve_dots [] (filter (\<lambda>s. s \<noteq> [] \<and> s \<noteq> ''.'') (js_split (CHR ''/'') p))
      in if segs = [] then ''/'' else concat (map (\<lambda>s. CHR ''/'' # s) segs))"

definition posix_basename :: "string \<Rightarrow> string" where
  "posix_basename p = rev (takeWhile (\<lambda>c. c \<noteq> CHR ''/'') (rev p))"

definition posix_dirname :: "string \<Rightarrow> string" where
  "posix_dirname p =
     (let d = rev (drop 1 (dropWhile (\<lambda>c. c \<noteq> CHR ''/'') (rev p)))
      in if d = [] then ''/'' else d)"

definition posix_extname :: "string \<Rightarrow> string" where
  "posix_extname p =
     (let b = posix_basename p;
          e = rev (takeWhile (\<lambda>c. c \<noteq> CHR ''.'') (rev b))
      in if length e = length b \<or> length e + 1 = length b then [] else CHR ''.'' # e)"

definition posix_relative :: "string \<Rightarrow> string \<Rightarrow> string" where
  "posix_relative from to = (if to = from then [] else drop (length from + 1) to)"

definition posix :: pathlib where
  "posix = \<lparr>normalize = posix_normalize, isAbsolute = (\<lambda>p. prefix ''/'' p),
            resolve = (\<lambda>a b. posix_normalize (a @ ''/'' @ b)), relative = posix_relative,
            dirname = posix_dirname, basename = posix_basename, extname = posix_extname,
            join = (\<lambda>a b. posix_normalize (a @ ''/'' @ b)), sep = CHR ''/''\<rparr>"

section \<open>Topic registry and vector-store lifecycle (topicManager.ts)\<close>

text \<open>A JavaScript \<^verbatim>\<open>Error\<close> with its message; a thrown error is the \<open>Inl\<close> of a result.\<close>

datatype error = Error (message: string)

datatype TopicSource = Local | Common

record Topic =
  topic_id :: string
  topic_name :: string
  description :: "string option"
  createdAt :: nat
  updatedAt :: nat
  documentCount :: nat
  source :: "TopicSource option"

datatype FileType = Pdf | Markdown | Html

record TopicDocument =
  doc_id :: string
  doc_topicId :: string
  doc_name :: string
  filePath :: string
  fileType :: FileType
  addedAt :: nat
  doc_chunkCount :: int

record TopicsIndex =
  topics :: "(string, Topic) jsmap"
  modelName :: string
  indexLastUpdated :: nat

text \<open>
  The collaborators that are not part of the repository's files are seen at their
  boundary. A vector store is the handle \<open>loadStore\<close> returns: the topic and database
  root it was opened for, and whether it has a table. The metadata file of a store
  records the embedding model and the chunk count.
\<close>

record VectorStore =
  storeTopic :: string
  storeRoot :: "string option"
  hasTable :: bool

record StoreMetadata =
  meta_chunkCount :: int
  meta_embeddingModel :: "string option"

record AvailableModel =
  model_name :: string
  downloaded :: bool
  model_source :: string

text \<open>
  Modelled from the spec: the vector-store factory (\<^verbatim>\<open>stores/vectorStoreFactory.ts\<close> is
  not among the files). It owns the vector-store data of the topics listed in \<open>stores\<close>;
  \<open>deleteStore\<close> removes the data of one topic.
\<close>

record VectorStoreFactory =
  stores :: "string list"

definition deleteStore :: "string \<Rightarrow> VectorStoreFactory \<Rightarrow> VectorStoreFactory" where
  "deleteStore topicId fac = fac\<lparr>stores := filter (\<lambda>t. t \<noteq> topicId) (stores fac)\<rparr>"

text \<open>
  What the environment answers during one call: the clock (one reading serves every
  \<^verbatim>\<open>Date.now()\<close> of the call), the path functions and settings, the identifier that
  \<open>generateTopicId\<close> builds from the clock and \<^verbatim>\<open>Math.random()\<close>, the embedding
  service (active model, models it lists), the factory's reads, and for each operation
  that can fail outside the repository the error it throws, if any.
\<close>

record env =
  now :: nat
  paths :: pathlib
  settings :: config
  freshTopicId :: string
  currentModel :: string
  listAvailableModels :: "AvailableModel list"
  getStoreMetadata :: "string \<Rightarrow> StoreMetadata option"
  readMetadataFile :: "string option \<Rightarrow> string \<Rightarrow> StoreMetadata option"
  loadStore :: "string \<Rightarrow> string option \<Rightarrow> error + VectorStore option"
  deleteStoreError :: "string option"
  tableDeleteError :: "string option"
  saveIndexError :: "string option"
  saveDocumentsError :: "string option"

text \<open>
  The manager's fields, the static cleanup callback (registered or not), and what the
  manager has done to its surroundings: the topic ids the callback was called with, the
  filters passed to the vector table's \<^verbatim>\<open>delete\<close>, and the files it has written.
\<close>

record TopicManager =
  topicsIndex :: "TopicsIndex option"
  vectorStoreFactory :: "VectorStoreFactory option"
  vectorStoreCache :: "(string, VectorStore) jsmap"
  topicDocuments :: "(string, (string, TopicDocument) jsmap) jsmap"
  folderChunkStats :: "(string, FolderChunkStats) jsmap"
  commonTopicsIndex :: "TopicsIndex option"
  commonTopicDocuments :: "(string, (string, TopicDocument) jsmap) jsmap"
  commonDatabasePath :: "string option"
  agentCacheCleanupCallback :: bool
  cleanupCalls :: "string list"
  chunkDeletes :: "(string \<times> string) list"
  diskIndex :: "TopicsIndex option"
  diskDocuments :: "(string, TopicDocument list) jsmap"

definition notInitialized :: error where
  "notInitialized = Error ''TopicManager not initialized''"

definition topicNotFound :: "string \<Rightarrow> error" where
  "topicNotFound topicId = Error (''Topic not found: '' @ topicId)"

definition alreadyExists :: "string \<Rightarrow> error" where
  "alreadyExists n = Error (''Topic with name \"'' @ n @ ''\" already exists'')"

definition saveTopicsIndex :: "env \<Rightarrow> TopicManager \<Rightarrow> (error + unit) \<times> TopicManager" where
  "saveTopicsIndex e m =
     (case topicsIndex m of
        None \<Rightarrow> (Inr (), m)
      | Some idx \<Rightarrow>
          (case saveIndexError e of
             Some msg \<Rightarrow> (Inl (Error msg), m)
           | None \<Rightarrow> (Inr (), m\<lparr>diskIndex := Some idx\<rparr>)))"

definition saveTopicDocuments :: "env \<Rightarrow> string \<Rightarrow> TopicManager \<Rightarrow> (error + unit) \<times> TopicManager" where
  "saveTopicDocuments e topicId m =
     (case map_get (topicDocuments m) topicId of
        None \<Rightarrow> (Inr (), m)
      | Some documents \<Rightarrow>
          (case saveDocumentsError e of
             Some msg \<Rightarrow> (Inl (Error msg), m)
           | None \<Rightarrow>
               (Inr (), m\<lparr>diskDocuments := map_set topicId (map_values documents) (diskDocuments m)\<rparr>)))"

text \<open>\<open>notifyAgentCacheCleanup\<close>: an error of the callback is caught and logged.\<close>

definition notifyAgentCacheCleanup :: "string \<Rightarrow> TopicManager \<Rightarrow> TopicManager" where
  "notifyAgentCacheCleanup topicId m =
     (if \<not> agentCacheCleanupCallback m then m
      else m\<lparr>cleanupCalls := cleanupCalls m @ [topicId]\<rparr>)"

definition setTopic :: "string \<Rightarrow> Topic \<Rightarrow> TopicManager \<Rightarrow> TopicManager" where
  "setTopic topicId t m =
     (case topicsIndex m of
        None \<Rightarrow> m
      | Some idx \<Rightarrow> m\<lparr>topicsIndex := Some (idx\<lparr>topics := map_set topicId t (topics idx)\<rparr>)\<rparr>)"

definition touchIndex :: "nat \<Rightarrow> TopicManager \<Rightarrow> TopicManager" where
  "touchIndex t m =
     (case topicsIndex m of
        None \<Rightarrow> m
      | Some idx \<Rightarrow> m\<lparr>topicsIndex := Some (idx\<lparr>indexLastUpdated := t\<rparr>)\<rparr>)"

subsection \<open>Reading the registries\<close>

definition localTopic :: "TopicManager \<Rightarrow> string \<Rightarrow> Topic option" where
  "localTopic m topicId =
     (case topicsIndex m of None \<Rightarrow> None | Some idx \<Rightarrow> map_get (topics idx) topicId)"

definition commonTopic :: "TopicManager \<Rightarrow> string \<Rightarrow> Topic option" where
  "commonTopic m topicId =
     (case commonTopicsIndex m of None \<Rightarrow> None | Some idx \<Rightarrow> map_get (topics idx) topicId)"

definition getTopic :: "TopicManager \<Rightarrow> string \<Rightarrow> Topic option" where
  "getTopic m topicId =
     (case localTopic m topicId of
        Some t \<Rightarrow> Some (t\<lparr>source := Some Local\<rparr>)
      | None \<Rightarrow>
          (case commonTopic m topicId of
             Some t \<Rightarrow> Some (t\<lparr>source := Some Common\<rparr>)
           | None \<Rightarrow> None))"

definition getAllTopics :: "TopicManager \<Rightarrow> Topic list" where
  "getAllTopics m =
     (let localTopics = (case topicsIndex m of
                           None \<Rightarrow> []
                         | Some idx \<Rightarrow> map (\<lambda>t. t\<lparr>source := Some Local\<rparr>) (map_values (topics idx)));
          commonTopics = (case commonTopicsIndex m of
                            None \<Rightarrow> []
                          | Some idx \<Rightarrow> map (\<lambda>t. t\<lparr>source := Some Common\<rparr>) (map_values (topics idx)))
      in localTopics @ commonTopics)"

definition isCommonTopic :: "TopicManager \<Rightarrow> string \<Rightarrow> bool" where
  "isCommonTopic m topicId = (commonTopic m topicId \<noteq> None)"


subsection \<open>Deleting\<close>

definition deleteTopicVectorStore :: "env \<Rightarrow> string \<Rightarrow> TopicManager \<Rightarrow> (error + unit) \<times> TopicManager" where
  "deleteTopicVectorStore e topicId m =
     (case topicsIndex m of
        None \<Rightarrow> (Inl notInitialized, m)
      | Some idx \<Rightarrow>
      (case vectorStoreFactory m of
        None \<Rightarrow> (Inl notInitialized, m)
      | Some fac \<Rightarrow>
          if map_get (topics idx) topicId = None then (Inl (topicNotFound topicId), m)
          else (case deleteStoreError e of
                  Some msg \<Rightarrow> (Inl (Error msg), m)
                | None \<Rightarrow>
                    (Inr (),
                     notifyAgentCacheCleanup topicId
                       (m\<lparr>vectorStoreFactory := Some (deleteStore topicId fac),
                          vectorStoreCache := map_delete topicId (vectorStoreCache m),
                          folderChunkStats := map_delete topicId (folderChunkStats m)\<rparr>)))))"

definition deleteTopic :: "env \<Rightarrow> string \<Rightarrow> TopicManager \<Rightarrow> (error + unit) \<times> TopicManager" where
  "deleteTopic e topicId m =
     (case topicsIndex m of
        None \<Rightarrow> (Inl notInitialized, m)
      | Some idx \<Rightarrow>
      (case vectorStoreFactory m of
        None \<Rightarrow> (Inl notInitialized, m)
      | Some fac \<Rightarrow>
          if map_get (topics idx) topicId = None then (Inl (topicNotFound topicId), m)
          else (case deleteStoreError e of
                  Some msg \<Rightarrow> (Inl (Error msg), m)
                | None \<Rightarrow>
                    (let m1 = m\<lparr>vectorStoreFactory := Some (deleteStore topicId fac),
                                 vectorStoreCache := map_delete topicId (vectorStoreCache m),
                                 topicDocuments := map_delete topicId (topicDocuments m),
                                 diskDocuments := map_delete topicId (diskDocuments m),
                                 topicsIndex := Some (idx\<lparr>topics := map_delete topicId (topics idx),
                                                          indexLastUpdated := now e\<rparr>)\<rparr>
                     in case saveTopicsIndex e m1 of
                          (Inl err, m2) \<Rightarrow> (Inl err, m2)
                        | (Inr u, m2) \<Rightarrow> (Inr (), notifyAgentCacheCleanup topicId m2)))))"

subsection \<open>Folder statistics of a topic\<close>

definition updateFolderChunkStats :: "env \<Rightarrow> string \<Rightarrow> string \<Rightarrow> int \<Rightarrow> TopicManager \<Rightarrow> TopicManager" where
  "updateFolderChunkStats e topicId fp cc m =
     m\<lparr>folderChunkStats :=
         map_set topicId
           (updateStats (paths e) (settings e) (now e) (map_get (folderChunkStats m) topicId) fp cc)
           (folderChunkStats m)\<rparr>"

definition removeFolderChunkStats :: "env \<Rightarrow> string \<Rightarrow> string \<Rightarrow> TopicManager \<Rightarrow> TopicManager" where
  "removeFolderChunkStats e topicId fp m =
     (case map_get (folderChunkStats m) topicId of
        None \<Rightarrow> m
      | Some stats \<Rightarrow>
          m\<lparr>folderChunkStats :=
              map_set topicId (removeStats (paths e) (settings e) (now e) stats fp)
                (folderChunkStats m)\<rparr>)"

subsection \<open>Creating and renaming topics, adding documents\<close>

definition truthy :: "string option \<Rightarrow> string option" where
  "truthy s = (case s of None \<Rightarrow> None | Some v \<Rightarrow> if v = [] then None else Some v)"

definition updateTopic :: "env \<Rightarrow> string \<Rightarrow> string option \<Rightarrow> string option \<Rightarrow> TopicManager \<Rightarrow> (error + Topic) \<times> TopicManager" where
  "updateTopic e topicId updName updDescription m =
     (case topicsIndex m of
        None \<Rightarrow> (Inl notInitialized, m)
      | Some idx \<Rightarrow>
      (case map_get (topics idx) topicId of
        None \<Rightarrow> (Inl (topicNotFound topicId), m)
      | Some topic \<Rightarrow>
          let conflict =
                (case truthy updName of
                   None \<Rightarrow> None
                 | Some n \<Rightarrow>
                     if n \<noteq> topic_name topic
                        \<and> js_find (\<lambda>t. topic_id t \<noteq> topicId
                                       \<and> toLowerCase (topic_name t) = toLowerCase n)
                             (map_values (topics idx)) \<noteq> None
                     then Some n else None)
          in (case conflict of
                Some n \<Rightarrow> (Inl (alreadyExists n), m)
              | None \<Rightarrow>
                 (let t1 = (case truthy updName of
                              None \<Rightarrow> topic | Some n \<Rightarrow> topic\<lparr>topic_name := n\<rparr>);
                      t2 = (case updDescription of
                              None \<Rightarrow> t1 | Some d \<Rightarrow> t1\<lparr>description := Some d\<rparr>);
                      t3 = t2\<lparr>updatedAt := now e\<rparr>;
                      m1 = touchIndex (now e) (setTopic topicId t3 m)
                  in (case saveTopicsIndex e m1 of
                        (Inl err, m2) \<Rightarrow> (Inl err, m2)
                      | (Inr u, m2) \<Rightarrow> (Inr t3, m2))))))"

datatype PipelineOutcome = PipelineThrows string | PipelineFailed | PipelineStored int

text \<open>
  What the environment answers while one file of a batch is processed: the pipeline's
  outcome (it throws, reports failure, or stores so many chunks), the identifier
  \<open>generateDocumentId\<close> builds, and the clock.
\<close>

record fileEnv =
  pipeline :: PipelineOutcome
  freshDocId :: string
  fileNow :: nat

definition mapFileType :: "string \<Rightarrow> FileType" where
  "mapFileType extension =
     (let x = toLowerCase extension
      in if x = ''pdf'' then Pdf
         else if x = ''md'' \<or> x = ''markdown'' then Markdown
         else if x = ''html'' \<or> x = ''htm'' then Html
         else Markdown)"

fun addEach :: "env \<Rightarrow> string \<Rightarrow> (string \<times> fileEnv) list \<Rightarrow> TopicManager \<times> TopicDocument list \<Rightarrow> TopicManager \<times> TopicDocument list" where
  "addEach e topicId [] (m, results) = (m, results)"
| "addEach e topicId ((fp, fe) # rest) (m, results) =
     (case pipeline fe of
        PipelineThrows msg \<Rightarrow> addEach e topicId rest (m, results)
      | PipelineFailed \<Rightarrow> addEach e topicId rest (m, results)
      | PipelineStored chunksStored \<Rightarrow>
          let document = \<lparr>doc_id = freshDocId fe, doc_topicId = topicId,
                           doc_name = basename (paths e) fp, filePath = fp,
                           fileType = mapFileType (drop 1 (extname (paths e) fp)),
                           addedAt = fileNow fe, doc_chunkCount = chunksStored\<rparr>;
              documents = (case map_get (topicDocuments m) topicId of
                             None \<Rightarrow> [] | Some d \<Rightarrow> d);
              m1 = m\<lparr>topicDocuments :=
                       map_set topicId (map_set (doc_id document) document documents)
                         (topicDocuments m)\<rparr>;
              m2 = updateFolderChunkStats (e\<lparr>now := fileNow fe\<rparr>) topicId fp
                     (doc_chunkCount document) m1
          in addEach e topicId rest (m2, results @ [document]))"

definition addDocuments :: "env \<Rightarrow> string \<Rightarrow> (string \<times> fileEnv) list \<Rightarrow> TopicManager \<Rightarrow> (error + TopicDocument list) \<times> TopicManager" where
  "addDocuments e topicId files m =
     (case topicsIndex m of
        None \<Rightarrow> (Inl notInitialized, m)
      | Some idx \<Rightarrow>
      (case map_get (topics idx) topicId of
        None \<Rightarrow> (Inl (topicNotFound topicId), m)
      | Some topic \<Rightarrow>
          let (m1, results) = addEach e topicId files (m, []);
              size = (case map_get (topicDocuments m1) topicId of
                        None \<Rightarrow> 0 | Some d \<Rightarrow> length d);
              m2 = touchIndex (now e)
                     (setTopic topicId (topic\<lparr>documentCount := size, updatedAt := now e\<rparr>) m1)
          in (case saveTopicsIndex e m2 of
                (Inl err, m3) \<Rightarrow> (Inl err, m3)
              | (Inr u, m3) \<Rightarrow>
                  (case saveTopicDocuments e topicId m3 of
                     (Inl err, m4) \<Rightarrow> (Inl err, m4)
                   | (Inr u', m4) \<Rightarrow> (Inr results, m4)))))"

definition createTopic :: "env \<Rightarrow> string \<Rightarrow> string option \<Rightarrow> (string \<times> fileEnv) list \<Rightarrow> TopicManager \<Rightarrow> (error + Topic) \<times> TopicManager" where
  "createTopic e name descr initialDocuments m =
     (case topicsIndex m of
        None \<Rightarrow> (Inl notInitialized, m)
      | Some idx \<Rightarrow>
          if js_find (\<lambda>t. toLowerCase (topic_name t) = toLowerCase name)
               (map_values (topics idx)) \<noteq> None
          then (Inl (alreadyExists name), m)
          else
            let topic = \<lparr>topic_id = freshTopicId e, topic_name = name, description = descr,
                          createdAt = now e, updatedAt = now e, documentCount = 0,
                          source = None\<rparr>;
                m1 = touchIndex (now e) (setTopic (topic_id topic) topic m)
            in (case saveTopicsIndex e m1 of
                  (Inl err, m2) \<Rightarrow> (Inl err, m2)
                | (Inr u, m2) \<Rightarrow>
                   (let m3 = m2\<lparr>topicDocuments := map_set (topic_id topic) [] (topicDocuments m2)\<rparr>
                    in if length initialDocuments > 0
                       then (case addDocuments e (topic_id topic) initialDocuments m3 of
                               (Inl err, m4) \<Rightarrow> (Inl err, m4)
                             | (Inr results, m4) \<Rightarrow>
                                 (case localTopic m4 (topic_id topic) of
                                    None \<Rightarrow> (Inr topic, m4)
                                  | Some t \<Rightarrow> (Inr t, m4)))
                       else (Inr topic, m3))))"

subsection \<open>Opening a vector store\<close>

definition mismatchMessage :: "string \<Rightarrow> string \<Rightarrow> string \<Rightarrow> string" where
  "mismatchMessage topicName storedModel current =
     ''Topic \"'' @ topicName @ ''\" was indexed with embedding model \"'' @ storedModel
       @ ''\", but the current setting is \"'' @ current @ ''\". ''
       @ ''The model \"'' @ storedModel @ ''\" is not currently available/downloaded. ''
       @ ''Please switch back to \"'' @ storedModel
       @ ''\" in settings to download it, or recreate the topic.''"

definition ensureEmbeddingModelCompatibility :: "env \<Rightarrow> string \<Rightarrow> TopicManager \<Rightarrow> error + unit" where
  "ensureEmbeddingModelCompatibility e topicId m =
     (case vectorStoreFactory m of
        None \<Rightarrow> Inr ()
      | Some fac \<Rightarrow>
      (case getStoreMetadata e topicId of
        None \<Rightarrow> Inr ()
      | Some metadata \<Rightarrow>
      (case truthy (meta_embeddingModel metadata) of
        None \<Rightarrow> Inr ()
      | Some storedModel \<Rightarrow>
          if storedModel = currentModel e then Inr ()
          else if list_ex (\<lambda>am. model_name am = storedModel
                                 \<and> (downloaded am \<or> model_source am = ''local''))
                    (listAvailableModels e)
          then Inr ()
          else
            let topicName = (case localTopic m topicId of
                               Some t \<Rightarrow> topic_name t | None \<Rightarrow> topicId)
            in Inl (Error (mismatchMessage topicName storedModel (currentModel e))))))"

definition getVectorStore :: "env \<Rightarrow> string \<Rightarrow> TopicManager \<Rightarrow> (error + VectorStore option) \<times> TopicManager" where
  "getVectorStore e topicId m =
     (case vectorStoreFactory m of
        None \<Rightarrow> (Inl notInitialized, m)
      | Some fac \<Rightarrow>
      (case ensureEmbeddingModelCompatibility e topicId m of
        Inl err \<Rightarrow> (Inl err, m)
      | Inr u \<Rightarrow>
      (case map_get (vectorStoreCache m) topicId of
        Some cachedStore \<Rightarrow> (Inr (Some cachedStore), m)
      | None \<Rightarrow>
          let databaseRoot = (if isCommonTopic m topicId then truthy (commonDatabasePath m) else None)
          in (case loadStore e topicId databaseRoot of
                Inl err \<Rightarrow> (Inl err, m)
              | Inr None \<Rightarrow> (Inr None, m)
              | Inr (Some store) \<Rightarrow>
                  (Inr (Some store),
                   m\<lparr>vectorStoreCache := map_set topicId store (vectorStoreCache m)\<rparr>)))))"

subsection \<open>Removing a document\<close>

definition deleteFilter :: "string \<Rightarrow> string" where
  "deleteFilter fileName =
     ''documentName = '' @ [CHR 0x27]
       @ concat (map (\<lambda>c. if c = CHR 0x27 then [c, c] else [c]) fileName) @ [CHR 0x27]"

definition removeDocumentByFilePath :: "env \<Rightarrow> string \<Rightarrow> string \<Rightarrow> TopicManager \<Rightarrow> (error + bool) \<times> TopicManager" where
  "removeDocumentByFilePath e topicId fp m =
     (case topicsIndex m of
        None \<Rightarrow> (Inl notInitialized, m)
      | Some idx \<Rightarrow>
      (case vectorStoreFactory m of
        None \<Rightarrow> (Inl notInitialized, m)
      | Some fac \<Rightarrow>
      (case map_get (topics idx) topicId of
        None \<Rightarrow> (Inl (topicNotFound topicId), m)
      | Some topic \<Rightarrow>
      (case map_get (topicDocuments m) topicId of
        None \<Rightarrow> (Inr False, m)
      | Some documents \<Rightarrow>
      (case js_find (\<lambda>d. filePath d = fp) (map_values documents) of
        None \<Rightarrow> (Inr False, m)
      | Some documentToRemove \<Rightarrow>
          let documents' = map_delete (doc_id documentToRemove) documents;
              m1 = m\<lparr>topicDocuments := map_set topicId documents' (topicDocuments m)\<rparr>
          in (case getVectorStore e topicId m1 of
               (Inl err, m2) \<Rightarrow> (Inl err, m2)
             | (Inr vectorStore, m2) \<Rightarrow>
                (let m3 = (case vectorStore of
                             None \<Rightarrow> m2
                           | Some store \<Rightarrow>
                               if hasTable store
                               then (case tableDeleteError e of
                                       Some msg \<Rightarrow> m2
                                     | None \<Rightarrow>
                                         m2\<lparr>chunkDeletes := chunkDeletes m2
                                              @ [(topicId, deleteFilter (basename (paths e) fp))]\<rparr>)
                               else m2);
                     m4 = touchIndex (now e)
                            (setTopic topicId
                               (topic\<lparr>documentCount := length documents', updatedAt := now e\<rparr>) m3)
                 in (case saveTopicsIndex e m4 of
                       (Inl err, m5) \<Rightarrow> (Inl err, m5)
                     | (Inr u, m5) \<Rightarrow>
                         (case saveTopicDocuments e topicId m5 of
                            (Inl err, m6) \<Rightarrow> (Inl err, m6)
                          | (Inr u', m6) \<Rightarrow>
                              (Inr True, removeFolderChunkStats e topicId fp m6))))))))))"

subsection \<open>Statistics of a topic\<close>

record TopicStats =
  stats_documentCount :: nat
  stats_chunkCount :: int
  stats_lastUpdated :: nat
  stats_embeddingModel :: string

text \<open>
  \<open>getTopicStats\<close>: the metadata file is read from the local database directory
  (\<open>None\<close>) or from the common database path; a file that cannot be read leaves the
  defaults. \<^verbatim>\<open>a || b || "unknown"\<close> takes the first non-empty string.
\<close>

definition getTopicStats :: "env \<Rightarrow> string \<Rightarrow> TopicManager \<Rightarrow> TopicStats option" where
  "getTopicStats e topicId m =
     (case topicsIndex m of
        None \<Rightarrow> None
      | Some idx \<Rightarrow>
      (case vectorStoreFactory m of
        None \<Rightarrow> None
      | Some fac \<Rightarrow>
          let fromCommon = (map_get (topics idx) topicId = None \<and> commonTopic m topicId \<noteq> None);
              topic = (case map_get (topics idx) topicId of
                         Some t \<Rightarrow> Some t
                       | None \<Rightarrow> commonTopic m topicId);
              isCommon = (fromCommon \<and> truthy (commonDatabasePath m) \<noteq> None);
              databaseDir = (if isCommon then commonDatabasePath m else None)
          in (case topic of
                None \<Rightarrow> None
              | Some t \<Rightarrow>
                 (let documents = (if isCommon then map_get (commonTopicDocuments m) topicId
                                   else map_get (topicDocuments m) topicId);
                      documentCount = (case documents of None \<Rightarrow> 0 | Some d \<Rightarrow> length d);
                      defaultModel = (if currentModel e \<noteq> [] then currentModel e
                                      else if modelName idx \<noteq> [] then modelName idx
                                      else ''unknown'');
                      metadata = readMetadataFile e databaseDir topicId;
                      chunkCount = (case metadata of None \<Rightarrow> 0 | Some md \<Rightarrow> meta_chunkCount md);
                      embeddingModel =
                        (case metadata of
                           None \<Rightarrow> defaultModel
                         | Some md \<Rightarrow>
                             (case truthy (meta_embeddingModel md) of
                                None \<Rightarrow> defaultModel
                              | Some em \<Rightarrow> em))
                  in Some \<lparr>stats_documentCount = documentCount, stats_chunkCount = chunkCount,
                           stats_lastUpdated = updatedAt t,
                           stats_embeddingModel = embeddingModel\<rparr>))))"

subsection \<open>The common (read-only) registry\<close>

text \<open>
  What \<open>loadCommonDatabase\<close> finds outside: the configured path, whether the path and
  its \<^verbatim>\<open>topics.json\<close> can be accessed, what reading and parsing the index gives (an
  error, \<^verbatim>\<open>null\<close>, or an index), and the document file of each topic (\<open>None\<close>: it
  cannot be read).
\<close>

record commonEnv =
  commonPathSetting :: "string option"
  accessError :: "string option"
  indexExists :: bool
  readIndex :: "error + TopicsIndex option"
  readDocuments :: "string \<Rightarrow> TopicDocument list option"

definition docsToMap :: "TopicDocument list \<Rightarrow> (string, TopicDocument) jsmap" where
  "docsToMap ds = foldl (\<lambda>documentsMap d. map_set (doc_id d) d documentsMap) [] ds"

definition loadCommonTopicDocuments :: "commonEnv \<Rightarrow> TopicManager \<Rightarrow> string \<Rightarrow> TopicManager" where
  "loadCommonTopicDocuments ce m topicId =
     (case truthy (commonDatabasePath m) of
        None \<Rightarrow> m
      | Some p \<Rightarrow>
          (case readDocuments ce topicId of
             Some documentsArray \<Rightarrow>
               m\<lparr>commonTopicDocuments :=
                   map_set topicId (docsToMap documentsArray) (commonTopicDocuments m)\<rparr>
           | None \<Rightarrow>
               m\<lparr>commonTopicDocuments := map_set topicId [] (commonTopicDocuments m)\<rparr>))"

fun joinWith :: "string \<Rightarrow> string list \<Rightarrow> string" where
  "joinWith d [] = []"
| "joinWith d [x] = x"
| "joinWith d (x # y # ys) = x @ d @ joinWith d (y # ys)"

definition conflictMessage :: "string list \<Rightarrow> string" where
  "conflictMessage conflicts =
     ''Cannot load common database due to name conflicts. Local topics [''
       @ joinWith '', '' (take 3 conflicts) @ (if length conflicts > 3 then ''...'' else [])
       @ ''] already exist. Please rename your local topics first.''"

definition abortCommon :: "TopicManager \<Rightarrow> TopicManager" where
  "abortCommon m =
     m\<lparr>commonTopicsIndex := None, commonTopicDocuments := [], commonDatabasePath := None\<rparr>"

text \<open>
  \<open>loadCommonDatabase\<close> returns the message shown to the user, if any, and the manager.
\<close>

definition loadCommonDatabase :: "commonEnv \<Rightarrow> TopicManager \<Rightarrow> string option \<times> TopicManager" where
  "loadCommonDatabase ce m =
     (case truthy (commonPathSetting ce) of
        None \<Rightarrow> (None, abortCommon m)
      | Some commonPath \<Rightarrow>
      (case accessError ce of
        Some msg \<Rightarrow> (Some (''Failed to load common database: '' @ msg), abortCommon m)
      | None \<Rightarrow>
          let m1 = m\<lparr>commonDatabasePath := Some commonPath\<rparr>
          in if \<not> indexExists ce
             then (Some (''Common database path found, but missing \"topics.json\". Is the path correct?''),
                   m1\<lparr>commonTopicsIndex := None, commonTopicDocuments := []\<rparr>)
             else
              (case readIndex ce of
                 Inl err \<Rightarrow>
                   (Some (''Failed to load common database: '' @ message err), abortCommon m1)
               | Inr None \<Rightarrow> (None, m1\<lparr>commonTopicsIndex := None\<rparr>)
               | Inr (Some cidx) \<Rightarrow>
                  (let m2 = m1\<lparr>commonTopicsIndex := Some cidx\<rparr>;
                       localTopicNames =
                         map (\<lambda>t. toLowerCase (topic_name t))
                           (case topicsIndex m of
                              None \<Rightarrow> [] | Some idx \<Rightarrow> map_values (topics idx));
                       conflicts =
                         map topic_name
                           (filter (\<lambda>t. toLowerCase (topic_name t) \<in> set localTopicNames)
                              (map_values (topics cidx)))
                   in if length conflicts > 0
                      then (Some (conflictMessage conflicts), abortCommon m2)
                      else (None, foldl (loadCommonTopicDocuments ce) m2 (map_keys (topics cidx)))))))"

subsection \<open>Export and import\<close>






section \<open>Retrieval service: \<^verbatim>\<open>GET /search\<close> (restServer.ts)\<close>

text \<open>A relevance score is a JavaScript number; the server only passes it on.\<close>

type_synonym score = real

record RetrievedDocument =
  pageContent :: string
  md_source :: "string option"
  md_documentName :: "string option"
  md_chunkId :: "string option"

record RagHit =
  hit_document :: RetrievedDocument
  hit_score :: score

record RagResult =
  rag_results :: "RagHit list"
  rag_totalResults :: nat
  rag_strategy :: string

record SearchResultItem =
  item_content :: string
  item_path :: string
  item_score :: score
  item_topic :: string
  item_chunkId :: "string option"

record SearchResponse =
  resp_query :: string
  resp_results :: "SearchResultItem list"
  resp_totalResults :: nat
  resp_executionTime :: nat
  resp_strategy :: string

text \<open>A response: the status code and the JSON body, \<^verbatim>\<open>{error: message}\<close> or a result.\<close>

datatype Body = ErrorBody string | SearchBody SearchResponse

record Response =
  status :: nat
  body :: Body

definition sendError :: "nat \<Rightarrow> string \<Rightarrow> Response" where
  "sendError code msg = \<lparr>status = code, body = ErrorBody msg\<rparr>"

definition sendJson :: "SearchResponse \<Rightarrow> Response" where
  "sendJson d = \<lparr>status = 200, body = SearchBody d\<rparr>"

record RAGAgent =
  agentStore :: VectorStore

text \<open>
  The server: the manager it was started with, its cache of agents, and the active model
  of the embedding service (the service is one object shared with the manager, whose
  operations read the active model from their environment).
\<close>

record RestServer =
  topicManager :: "TopicManager option"
  agentCache :: "(string, RAGAgent) jsmap"
  activeModel :: string

text \<open>
  What the environment answers during one request: the environment of the manager's
  calls, the error of switching the model, of initialising a new agent, the outcome of
  the agent's query, and the time the request took.
\<close>

record searchEnv =
  base :: env
  initializeError :: "string option"
  agentInitializeError :: "string option"
  queryOutcome :: "error + RagResult"
  elapsed :: nat

text \<open>
  Modelled from the spec: \<^verbatim>\<open>EmbeddingService.initialize(model)\<close> (the embedding service
  is not among the files) hot-switches the active model to the given model, or fails and
  leaves the active model as it was.
\<close>

definition embeddingInitialize :: "string option \<Rightarrow> string \<Rightarrow> string \<Rightarrow> error + string" where
  "embeddingInitialize failure model active =
     (case failure of Some msg \<Rightarrow> Inl (Error msg) | None \<Rightarrow> Inr model)"

definition switchFailedMessage :: "string \<Rightarrow> string \<Rightarrow> string \<Rightarrow> string \<Rightarrow> string" where
  "switchFailedMessage topicName topicModel current msg =
     ''Topic \"'' @ topicName @ ''\" was indexed with embedding model \"'' @ topicModel
       @ ''\", but the current setting is \"'' @ current @ ''\". Failed to switch models: '' @ msg"

text \<open>The topic to search: the one named (\<open>Inl\<close>: it does not exist), else the first.\<close>

definition resolveTarget :: "TopicManager \<Rightarrow> string option \<Rightarrow> string + Topic option" where
  "resolveTarget tm topicParam =
     (let allTopics = getAllTopics tm
      in case truthy topicParam of
           Some topicName \<Rightarrow>
             (case js_find (\<lambda>t. toLowerCase (topic_name t) = toLowerCase topicName) allTopics of
                None \<Rightarrow> Inl topicName
              | Some found \<Rightarrow> Inr (Some found))
         | None \<Rightarrow> Inr (case allTopics of [] \<Rightarrow> None | t # ts \<Rightarrow> Some t))"

definition firstTruthy :: "string option \<Rightarrow> string option \<Rightarrow> string" where
  "firstTruthy a b =
     (case truthy a of
        Some v \<Rightarrow> v
      | None \<Rightarrow> (case truthy b of Some w \<Rightarrow> w | None \<Rightarrow> []))"

text \<open>The agent's query and the shaping of its results (lines 318--351).\<close>

definition runQuery :: "searchEnv \<Rightarrow> string \<Rightarrow> Topic \<Rightarrow> RestServer \<Rightarrow> Response \<times> RestServer" where
  "runQuery se searchQuery targetTopic srv =
     (case queryOutcome se of
        Inl err \<Rightarrow> (sendError 500 (''Search failed: '' @ message err), srv)
      | Inr ragResult \<Rightarrow>
          (sendJson
             \<lparr>resp_query = searchQuery,
              resp_results =
                map (\<lambda>r. \<lparr>item_content = pageContent (hit_document r),
                           item_path = firstTruthy (md_source (hit_document r))
                                         (md_documentName (hit_document r)),
                           item_score = hit_score r,
                           item_topic = topic_name targetTopic,
                           item_chunkId = md_chunkId (hit_document r)\<rparr>)
                  (rag_results ragResult),
              resp_totalResults = rag_totalResults ragResult,
              resp_executionTime = elapsed se,
              resp_strategy = rag_strategy ragResult\<rparr>,
           srv))"

text \<open>Getting the topic's agent from the cache, or building it (lines 305--316).\<close>

definition withAgent :: "searchEnv \<Rightarrow> string \<Rightarrow> Topic \<Rightarrow> TopicManager \<Rightarrow> RestServer \<Rightarrow> Response \<times> RestServer" where
  "withAgent se searchQuery targetTopic tm srv =
     (case map_get (agentCache srv) (topic_id targetTopic) of
        Some agent \<Rightarrow> runQuery se searchQuery targetTopic srv
      | None \<Rightarrow>
          (case getVectorStore ((base se)\<lparr>currentModel := activeModel srv\<rparr>)
                  (topic_id targetTopic) tm of
             (Inl err, tm') \<Rightarrow>
               (sendError 500 (''Search failed: '' @ message err),
                srv\<lparr>topicManager := Some tm'\<rparr>)
           | (Inr None, tm') \<Rightarrow>
               (sendError 500 ''Vector store not available for topic'',
                srv\<lparr>topicManager := Some tm'\<rparr>)
           | (Inr (Some vectorStore), tm') \<Rightarrow>
               (case agentInitializeError se of
                  Some msg \<Rightarrow>
                    (sendError 500 (''Search failed: '' @ msg), srv\<lparr>topicManager := Some tm'\<rparr>)
                | None \<Rightarrow>
                    runQuery se searchQuery targetTopic
                      (srv\<lparr>topicManager := Some tm',
                           agentCache := map_set (topic_id targetTopic)
                                           \<lparr>agentStore = vectorStore\<rparr> (agentCache srv)\<rparr>))))"

text \<open>
  The comparison of the topic's model with the active one and the switch (lines
  277--303). \<open>topicModelOf\<close> is \<^verbatim>\<open>topicStats?.embeddingModel\<close> when it is a non-empty
  string.
\<close>

definition topicModelOf :: "searchEnv \<Rightarrow> Topic \<Rightarrow> TopicManager \<Rightarrow> RestServer \<Rightarrow> string option" where
  "topicModelOf se targetTopic tm srv =
     (case getTopicStats ((base se)\<lparr>currentModel := activeModel srv\<rparr>) (topic_id targetTopic) tm of
        None \<Rightarrow> None
      | Some topicStats \<Rightarrow> truthy (Some (stats_embeddingModel topicStats)))"

definition searchTopic :: "searchEnv \<Rightarrow> string \<Rightarrow> Topic \<Rightarrow> TopicManager \<Rightarrow> RestServer \<Rightarrow> Response \<times> RestServer" where
  "searchTopic se searchQuery targetTopic tm srv =
     (case topicModelOf se targetTopic tm srv of
        None \<Rightarrow> withAgent se searchQuery targetTopic tm srv
      | Some topicEmbeddingModel \<Rightarrow>
          if topicEmbeddingModel = activeModel srv
          then withAgent se searchQuery targetTopic tm srv
          else (case embeddingInitialize (initializeError se) topicEmbeddingModel (activeModel srv) of
                  Inl err \<Rightarrow>
                    (sendError 500
                       (switchFailedMessage (topic_name targetTopic) topicEmbeddingModel
                          (activeModel srv) (message err)),
                     srv)
                | Inr switched \<Rightarrow>
                    withAgent se searchQuery targetTopic tm
                      (srv\<lparr>activeModel := switched, agentCache := []\<rparr>)))"

text \<open>
  \<open>handleSearch\<close>: \<open>q\<close> and \<open>topic\<close> are the query parameters as given (\<open>None\<close>:
  absent), \<open>limit\<close> is what \<^verbatim>\<open>parseInt\<close> makes of the limit parameter (\<open>None\<close>:
  \<^verbatim>\<open>NaN\<close>).
\<close>

definition handleSearch :: "searchEnv \<Rightarrow> string option \<Rightarrow> int option \<Rightarrow> string option \<Rightarrow> RestServer \<Rightarrow> Response \<times> RestServer" where
  "handleSearch se q limitParam topicParam srv =
     (case truthy q of
        None \<Rightarrow> (sendError 400 ''Missing required parameter: q'', srv)
      | Some searchQuery \<Rightarrow>
      (case topicManager srv of
        None \<Rightarrow> (sendError 503 ''Topic manager not initialized'', srv)
      | Some tm \<Rightarrow>
      (case resolveTarget tm topicParam of
        Inl topicName \<Rightarrow> (sendError 404 (''Topic not found: '' @ topicName), srv)
      | Inr None \<Rightarrow> (sendError 404 ''No topics available'', srv)
      | Inr (Some targetTopic) \<Rightarrow> searchTopic se searchQuery targetTopic tm srv)))"

section \<open>Progress and pause coordinator, and the watcher's batch\<close>

text \<open>
  The tracker's pause state (the progress records are left out): the flag, the resolvers
  queued per topic, each named by the caller it resumes, and the events emitted.
\<close>

record ProgressTracker =
  isPaused :: bool
  pauseResolvers :: "(string, nat list) jsmap"
  emitted :: "string list"

definition pause :: "ProgressTracker \<Rightarrow> ProgressTracker" where
  "pause t =
     (if isPaused t then t
      else t\<lparr>isPaused := True, emitted := emitted t @ [''pause'', ''progress'']\<rparr>)"

text \<open>\<open>resume\<close> returns the callers whose resolvers it has called, in the order of the calls.\<close>

definition resume :: "ProgressTracker \<Rightarrow> nat list \<times> ProgressTracker" where
  "resume t =
     (if \<not> isPaused t then ([], t)
      else (concat (map_values (pauseResolvers t)),
            t\<lparr>isPaused := False, pauseResolvers := [],
              emitted := emitted t @ [''resume'', ''progress'']\<rparr>))"

definition togglePause :: "ProgressTracker \<Rightarrow> nat list \<times> ProgressTracker" where
  "togglePause t = (if isPaused t then resume t else ([], pause t))"

text \<open>
  \<open>waitIfPaused\<close>: \<open>True\<close> when the returned promise is already resolved (the caller
  goes on), \<open>False\<close> when the caller is suspended on the topic's queue.
\<close>

definition waitIfPaused :: "string \<Rightarrow> nat \<Rightarrow> ProgressTracker \<Rightarrow> bool \<times> ProgressTracker" where
  "waitIfPaused topicId caller t =
     (if \<not> isPaused t then (True, t)
      else (False,
            t\<lparr>pauseResolvers :=
                map_set topicId
                  ((case map_get (pauseResolvers t) topicId of None \<Rightarrow> [] | Some rs \<Rightarrow> rs) @ [caller])
                  (pauseResolvers t)\<rparr>))"

text \<open>
  A batch of the watcher (\<open>processQueuedChanges\<close>, and \<open>seedDefaultTopicFromExistingFiles\<close>
  alike): two loops over the same files, the first removing the old version of each
  file, the second adding each file, and each iteration starting with
  \<open>waitIfPaused\<close>. The worker is at the checkpoint of an iteration, suspended in it, or
  past it (its promise resolved, the file's operation still to run); passing the
  checkpoint is one step and handling one file is one step, and calls of \<open>pause\<close> and
  \<open>resume\<close> come in between in any order.
\<close>

datatype Loop = Removing | Adding

datatype Control = AtCheckpoint | Suspended | PastCheckpoint | Finished

record Worker =
  workerId :: nat
  workerTopic :: string
  existingFiles :: "string list"
  loop :: Loop
  position :: nat
  control :: Control
  handled :: "(Loop \<times> string) list"

record System =
  tracker :: ProgressTracker
  worker :: Worker

text \<open>
  Handling the file at \<open>position\<close> (the index of the \<^verbatim>\<open>for\<close> loop; in the second
  loop it is the source's \<^verbatim>\<open>processedCount\<close>) and moving to the next iteration; after
  the last file the first loop hands over to the second, the second ends the batch.
\<close>

definition handleFile :: "Worker \<Rightarrow> Worker" where
  "handleFile w =
     (if position w < length (existingFiles w)
      then
        (let w1 = w\<lparr>handled := handled w @ [(loop w, existingFiles w ! position w)],
                    position := position w + 1\<rparr>
         in if position w1 < length (existingFiles w1) then w1\<lparr>control := AtCheckpoint\<rparr>
            else if loop w1 = Removing
            then w1\<lparr>loop := Adding, position := 0, control := AtCheckpoint\<rparr>
            else w1\<lparr>control := Finished\<rparr>)
      else w\<lparr>control := Finished\<rparr>)"


datatype Event = Pause | Resume | Run

definition step :: "Event \<Rightarrow> System \<Rightarrow> System" where
  "step ev s =
     (case ev of
        Pause \<Rightarrow> s\<lparr>tracker := pause (tracker s)\<rparr>
      | Resume \<Rightarrow>
          (let (released, t') = resume (tracker s)
           in s\<lparr>tracker := t',
                worker := (if control (worker s) = Suspended
                              \<and> workerId (worker s) \<in> set released
                           then (worker s)\<lparr>control := PastCheckpoint\<rparr> else worker s)\<rparr>)
      | Run \<Rightarrow>
          (case control (worker s) of
             AtCheckpoint \<Rightarrow>
               (let (ready, t') = waitIfPaused (workerTopic (worker s)) (workerId (worker s)) (tracker s)
                in if ready then s\<lparr>tracker := t', worker := (worker s)\<lparr>control := PastCheckpoint\<rparr>\<rparr>
                   else s\<lparr>tracker := t', worker := (worker s)\<lparr>control := Suspended\<rparr>\<rparr>)
           | PastCheckpoint \<Rightarrow> s\<lparr>worker := handleFile (worker s)\<rparr>
           | Suspended \<Rightarrow> s
           | Finished \<Rightarrow> s))"

fun run :: "Event list \<Rightarrow> System \<Rightarrow> System" where
  "run [] s = s"
| "run (ev # evs) s = run evs (step ev s)"

section \<open>Sample data\<close>

text \<open>
  One watch folder \<^verbatim>\<open>/w\<close>, an environment in which nothing fails, and an initialised
  manager with an empty registry and a registered cleanup callback.
\<close>

definition sampleConfig :: config where
  "sampleConfig = \<lparr>watchFolders = [''/w''], legacyWatchFolder = [], workspaceRoot = ''/''\<rparr>"

definition sampleEnv :: env where
  "sampleEnv =
     \<lparr>now = 1, paths = posix, settings = sampleConfig, freshTopicId = ''topic-1-abc'',
      currentModel = ''model-a'', listAvailableModels = [],
      getStoreMetadata = (\<lambda>t. None), readMetadataFile = (\<lambda>r t. None),
      loadStore = (\<lambda>t r. Inr (Some \<lparr>storeTopic = t, storeRoot = r, hasTable = True\<rparr>)),
      deleteStoreError = None, tableDeleteError = None, saveIndexError = None,
      saveDocumentsError = None\<rparr>"

definition emptyManager :: TopicManager where
  "emptyManager =
     \<lparr>topicsIndex = Some \<lparr>topics = [], modelName = ''model-a'', indexLastUpdated = 0\<rparr>,
      vectorStoreFactory = Some \<lparr>stores = []\<rparr>, vectorStoreCache = [], topicDocuments = [],
      folderChunkStats = [], commonTopicsIndex = None, commonTopicDocuments = [],
      commonDatabasePath = None, agentCacheCleanupCallback = True, cleanupCalls = [],
      chunkDeletes = [], diskIndex = None, diskDocuments = []\<rparr>"

text \<open>
  The topic \<^verbatim>\<open>Docs\<close> created with one file of 10 chunks; its vector store has been
  written by the pipeline and opened once.
\<close>

definition docsManager :: TopicManager where
  "docsManager =
     (snd (getVectorStore sampleEnv ''topic-1-abc''
        (snd (createTopic sampleEnv ''Docs'' None
           [(''/w/a.md'', \<lparr>pipeline = PipelineStored 10, freshDocId = ''doc-1-xyz'', fileNow = 1\<rparr>)]
           emptyManager))))
     \<lparr>vectorStoreFactory := Some \<lparr>stores = [''topic-1-abc'']\<rparr>\<rparr>"

text \<open>
  Two files indexed one after the other: \<^verbatim>\<open>/w/b.md\<close> with 3 chunks, then
  \<^verbatim>\<open>/w/b.md/c/d.md\<close> with 5 chunks (the first path has become a directory; the
  watcher skips deleted files, so the old entry is still in the tree).
\<close>

definition treeManager1 :: TopicManager where
  "treeManager1 = updateFolderChunkStats sampleEnv ''topic-1-abc'' ''/w/b.md'' 3 emptyManager"

definition treeManager2 :: TopicManager where
  "treeManager2 = updateFolderChunkStats sampleEnv ''topic-1-abc'' ''/w/b.md/c/d.md'' 5 treeManager1"

text \<open>
  A common database with the topic \<^verbatim>\<open>Shared\<close> and one document, mounted beside the local
  topic \<^verbatim>\<open>Docs\<close>; and a second common index in which one topic is named \<^verbatim>\<open>DOCS\<close>.
\<close>

definition sharedIndex :: TopicsIndex where
  "sharedIndex =
     \<lparr>topics = [(''topic-9-shared'',
         \<lparr>topic_id = ''topic-9-shared'', topic_name = ''Shared'', description = None,
          createdAt = 0, updatedAt = 0, documentCount = 1, source = None\<rparr>)],
      modelName = ''model-a'', indexLastUpdated = 0\<rparr>"

definition sharedDocument :: TopicDocument where
  "sharedDocument =
     \<lparr>doc_id = ''doc-9-s'', doc_topicId = ''topic-9-shared'', doc_name = ''s.md'',
      filePath = ''/shared/s.md'', fileType = Markdown, addedAt = 0, doc_chunkCount = 4\<rparr>"

definition sharedEnv :: commonEnv where
  "sharedEnv =
     \<lparr>commonPathSetting = Some ''/mnt/common'', accessError = None, indexExists = True,
      readIndex = Inr (Some sharedIndex),
      readDocuments = (\<lambda>t. if t = ''topic-9-shared'' then Some [sharedDocument] else None)\<rparr>"

definition mountedManager :: TopicManager where
  "mountedManager = snd (loadCommonDatabase sharedEnv docsManager)"

definition clashIndex :: TopicsIndex where
  "clashIndex =
     \<lparr>topics = [(''topic-9-shared'',
         \<lparr>topic_id = ''topic-9-shared'', topic_name = ''Shared'', description = None,
          createdAt = 0, updatedAt = 0, documentCount = 1, source = None\<rparr>),
        (''topic-8-docs'',
         \<lparr>topic_id = ''topic-8-docs'', topic_name = ''DOCS'', description = None,
          createdAt = 0, updatedAt = 0, documentCount = 0, source = None\<rparr>)],
      modelName = ''model-a'', indexLastUpdated = 0\<rparr>"

text \<open>The common registry as a whole: its index, its documents and its path.\<close>

definition commonRegistry :: "TopicManager \<Rightarrow> TopicsIndex option \<times> (string, (string, TopicDocument) jsmap) jsmap \<times> string option" where
  "commonRegistry m = (commonTopicsIndex m, commonTopicDocuments m, commonDatabasePath m)"

text \<open>
  The environment in which the stored metadata of every topic names the model
  \<^verbatim>\<open>model-b\<close>, while \<^verbatim>\<open>model-a\<close> is active and no other model is available.
\<close>

definition mismatchEnv :: env where
  "mismatchEnv =
     sampleEnv\<lparr>getStoreMetadata :=
       (\<lambda>t. Some \<lparr>meta_chunkCount = 10, meta_embeddingModel = Some ''model-b''\<rparr>)\<rparr>"





text \<open>
  The shape of a response: an error body with one of the error statuses, or a result with
  status 200.
\<close>

definition wellShaped :: "Response \<Rightarrow> bool" where
  "wellShaped r =
     (case body r of
        ErrorBody msg \<Rightarrow> status r = 400 \<or> status r = 404 \<or> status r = 500 \<or> status r = 503
      | SearchBody d \<Rightarrow> status r = 200)"

text \<open>
  Requests: an environment in which the query succeeds with no hits; one in which the
  metadata of every topic names \<^verbatim>\<open>model-b\<close>; the change that makes \<open>loadStore\<close> find no
  store; and three servers, with the topic \<^verbatim>\<open>Docs\<close> (its store not yet opened), with no
  topic, and without a manager.
\<close>

definition sampleSearchEnv :: searchEnv where
  "sampleSearchEnv =
     \<lparr>base = sampleEnv, initializeError = None, agentInitializeError = None,
      queryOutcome = Inr \<lparr>rag_results = [], rag_totalResults = 0, rag_strategy = ''hybrid''\<rparr>,
      elapsed = 3\<rparr>"

definition modelBSearchEnv :: searchEnv where
  "modelBSearchEnv =
     sampleSearchEnv\<lparr>base :=
       sampleEnv\<lparr>readMetadataFile :=
                   (\<lambda>r t. Some \<lparr>meta_chunkCount = 10, meta_embeddingModel = Some ''model-b''\<rparr>),
                 getStoreMetadata :=
                   (\<lambda>t. Some \<lparr>meta_chunkCount = 10, meta_embeddingModel = Some ''model-b''\<rparr>)\<rparr>\<rparr>"

definition noStoreEnv :: "searchEnv \<Rightarrow> searchEnv" where
  "noStoreEnv se = se\<lparr>base := (base se)\<lparr>loadStore := (\<lambda>t r. Inr None)\<rparr>\<rparr>"

definition docsServer :: RestServer where
  "docsServer =
     \<lparr>topicManager = Some (docsManager\<lparr>vectorStoreCache := []\<rparr>), agentCache = [],
      activeModel = ''model-a''\<rparr>"




definition workerInv :: "Worker \<Rightarrow> bool" where
  "workerInv w =
     (position w \<le> length (existingFiles w)
      \<and> handled w =
          (if loop w = Removing
           then map (Pair Removing) (take (position w) (existingFiles w))
           else map (Pair Removing) (existingFiles w)
                @ map (Pair Adding) (take (position w) (existingFiles w))))"



text \<open>
  A well-formed tree: a node that is marked as a file has no children. \<open>sumCounts\<close> adds
  the chunk counts of a list of children.
\<close>

fun leafFiles :: "FolderChunkNode \<Rightarrow> bool" where
  "leafFiles (FolderChunkNode n p f c ch) =
     (if f then ch = [] else list_all (\<lambda>kc. leafFiles (snd kc)) ch)"

definition sumCounts :: "(string \<times> FolderChunkNode) list \<Rightarrow> int" where
  "sumCounts ch = sum_list (map (\<lambda>kc. chunkCount (snd kc)) ch)"

section \<open>Verified properties\<close>

subsection \<open>Folder usage tree\<close>

text \<open>
  Claim C1 (the invariant of the folder usage tree after every update): it holds after
  the first update below, and fails after the second. The second file lies below a node
  that is marked as a file; \<open>calculateNodeTotal\<close> returns at a file node without
  visiting its children, so the folder \<^verbatim>\<open>c\<close> keeps the chunk count 0 it was created
  with although its only child carries 5.
\<close>

theorem updateFolderChunkStats_below_file_node:
  "map_get (folderChunkStats treeManager1) ''topic-1-abc'' =
     Some \<lparr>roots = [(''/w'', FolderChunkNode ''w'' ''/w'' False 3
                [(''b.md'', FolderChunkNode ''b.md'' ''/w/b.md'' True 3 [])])],
           totalChunks = 3, lastUpdated = 1\<rparr>
   \<and> statsInv \<lparr>roots = [(''/w'', FolderChunkNode ''w'' ''/w'' False 3
                [(''b.md'', FolderChunkNode ''b.md'' ''/w/b.md'' True 3 [])])],
           totalChunks = 3, lastUpdated = 1\<rparr>
   \<and> map_get (folderChunkStats treeManager2) ''topic-1-abc'' =
     Some \<lparr>roots = [(''/w'', FolderChunkNode ''w'' ''/w'' False 3
                [(''b.md'', FolderChunkNode ''b.md'' ''/w/b.md'' True 3
                   [(''c'', FolderChunkNode ''c'' ''/w/b.md/c'' False 0
                      [(''d.md'', FolderChunkNode ''d.md'' ''/w/b.md/c/d.md'' True 5 [])])])])],
           totalChunks = 3, lastUpdated = 1\<rparr>
   \<and> \<not> statsInv \<lparr>roots = [(''/w'', FolderChunkNode ''w'' ''/w'' False 3
                [(''b.md'', FolderChunkNode ''b.md'' ''/w/b.md'' True 3
                   [(''c'', FolderChunkNode ''c'' ''/w/b.md/c'' False 0
                      [(''d.md'', FolderChunkNode ''d.md'' ''/w/b.md/c/d.md'' True 5 [])])])])],
           totalChunks = 3, lastUpdated = 1\<rparr>"
  by code_simp

subsection \<open>Deleting a topic\<close>

text \<open>\<open>deleteTopic\<close> never touches the folder statistics, whatever its outcome.\<close>

lemma deleteTopic_folderChunkStats:
  "folderChunkStats (snd (deleteTopic e topicId m)) = folderChunkStats m"
  by (simp add: deleteTopic_def saveTopicsIndex_def notifyAgentCacheCleanup_def Let_def
      split: option.splits prod.splits sum.splits)

text \<open>
  Claim C8 (both deletions remove the vector-store data, drop the cache entry, clear the
  folder-usage state and call the cleanup callback): on the topic \<^verbatim>\<open>Docs\<close> both
  succeed, both remove the data, the cache entry and call the callback;
  \<open>deleteTopicVectorStore\<close> clears the topic's folder statistics, \<open>deleteTopic\<close>
  leaves them in place.
\<close>

theorem deleteTopic_keeps_folder_stats:
  "fst (deleteTopicVectorStore sampleEnv ''topic-1-abc'' docsManager) = Inr ()
   \<and> fst (deleteTopic sampleEnv ''topic-1-abc'' docsManager) = Inr ()
   \<and> vectorStoreFactory (snd (deleteTopic sampleEnv ''topic-1-abc'' docsManager))
       = Some \<lparr>stores = []\<rparr>
   \<and> map_get (vectorStoreCache docsManager) ''topic-1-abc''
       = Some \<lparr>storeTopic = ''topic-1-abc'', storeRoot = None, hasTable = True\<rparr>
   \<and> map_get (vectorStoreCache (snd (deleteTopic sampleEnv ''topic-1-abc'' docsManager)))
         ''topic-1-abc'' = None
   \<and> cleanupCalls (snd (deleteTopic sampleEnv ''topic-1-abc'' docsManager)) = [''topic-1-abc'']
   \<and> map_get (folderChunkStats (snd (deleteTopicVectorStore sampleEnv ''topic-1-abc'' docsManager)))
         ''topic-1-abc'' = None
   \<and> map_get (folderChunkStats (snd (deleteTopic sampleEnv ''topic-1-abc'' docsManager)))
         ''topic-1-abc''
       = Some \<lparr>roots = [(''/w'', FolderChunkNode ''w'' ''/w'' False 10
                  [(''a.md'', FolderChunkNode ''a.md'' ''/w/a.md'' True 10 [])])],
               totalChunks = 10, lastUpdated = 1\<rparr>"
  by code_simp

subsection \<open>The common registry\<close>

lemma filter_nonempty: "x \<in> set xs \<Longrightarrow> P x \<Longrightarrow> filter P xs \<noteq> []"
  by (induction xs) auto

text \<open>
  Claim C4: when the common index that is read holds a topic whose name equals, up to
  case, the name of a local topic, \<open>loadCommonDatabase\<close> leaves the manager as it was
  except that the common index is \<open>None\<close>, the common documents are empty and the common
  database path is \<open>None\<close>; the topics visible afterwards are the local ones, and the user
  is shown a message.
\<close>

theorem loadCommonDatabase_aborts_on_collision:
  assumes cfg: "truthy (commonPathSetting ce) = Some p" "accessError ce = None" "indexExists ce"
      and rd: "readIndex ce = Inr (Some cidx)"
      and loc: "topicsIndex m = Some idx"
      and ct: "ct \<in> set (map_values (topics cidx))"
      and lt: "lt \<in> set (map_values (topics idx))"
      and eq: "toLowerCase (topic_name ct) = toLowerCase (topic_name lt)"
  shows "snd (loadCommonDatabase ce m)
           = m\<lparr>commonTopicsIndex := None, commonTopicDocuments := [], commonDatabasePath := None\<rparr>
         \<and> getAllTopics (snd (loadCommonDatabase ce m))
           = map (\<lambda>t. t\<lparr>source := Some Local\<rparr>) (map_values (topics idx))
         \<and> fst (loadCommonDatabase ce m) \<noteq> None"
proof -
  let ?names = "map (\<lambda>t. toLowerCase (topic_name t)) (map_values (topics idx))"
  have "toLowerCase (topic_name ct) \<in> set ?names"
    using lt eq by auto
  then have ne: "filter (\<lambda>t. toLowerCase (topic_name t) \<in> set ?names) (map_values (topics cidx)) \<noteq> []"
    using ct by (rule_tac filter_nonempty[where x=ct]) auto
  have "loadCommonDatabase ce m = (Some (conflictMessage (map topic_name (filter (\<lambda>t. toLowerCase (topic_name t) \<in> set ?names) (map_values (topics cidx))))),
          abortCommon (m\<lparr>commonDatabasePath := Some p, commonTopicsIndex := Some cidx\<rparr>))"
    using cfg rd loc ne by (simp add: loadCommonDatabase_def Let_def)
  then show ?thesis
    using loc by (simp add: abortCommon_def getAllTopics_def)
qed

theorem loadCommonDatabase_aborts_on_collision_witness:
  "snd (loadCommonDatabase (sharedEnv\<lparr>readIndex := Inr (Some clashIndex)\<rparr>) mountedManager)
     = mountedManager\<lparr>commonTopicsIndex := None, commonTopicDocuments := [], commonDatabasePath := None\<rparr>
   \<and> commonTopicsIndex mountedManager = Some sharedIndex
   \<and> map topic_name (getAllTopics (snd (loadCommonDatabase (sharedEnv\<lparr>readIndex := Inr (Some clashIndex)\<rparr>) mountedManager))) = [''Docs'']"
proof -
  have loc: "topicsIndex mountedManager = Some \<lparr>topics = [(''topic-1-abc'',
            \<lparr>topic_id = ''topic-1-abc'', topic_name = ''Docs'',
               description = None, createdAt = 1, updatedAt = 1,
               documentCount = 1, source = None\<rparr>)], modelName = ''model-a'', indexLastUpdated = 1\<rparr>"
    by code_simp
  have a: "truthy (commonPathSetting (sharedEnv\<lparr>readIndex := Inr (Some clashIndex)\<rparr>)) = Some ''/mnt/common''"
    by (simp add: sharedEnv_def truthy_def)
  have b: "accessError (sharedEnv\<lparr>readIndex := Inr (Some clashIndex)\<rparr>) = None" "indexExists (sharedEnv\<lparr>readIndex := Inr (Some clashIndex)\<rparr>)"
    "readIndex (sharedEnv\<lparr>readIndex := Inr (Some clashIndex)\<rparr>) = Inr (Some clashIndex)"
    by (simp_all add: sharedEnv_def)
  have c: "\<lparr>topic_id = ''topic-8-docs'', topic_name = ''DOCS'', description = None,
          createdAt = 0, updatedAt = 0, documentCount = 0, source = None\<rparr> \<in> set (map_values (topics clashIndex))"
    by (simp add: clashIndex_def map_values_def)
  have d: "\<lparr>topic_id = ''topic-1-abc'', topic_name = ''Docs'',
               description = None, createdAt = 1, updatedAt = 1,
               documentCount = 1, source = None\<rparr> \<in> set (map_values (topics \<lparr>topics = [(''topic-1-abc'',
            \<lparr>topic_id = ''topic-1-abc'', topic_name = ''Docs'',
               description = None, createdAt = 1, updatedAt = 1,
               documentCount = 1, source = None\<rparr>)], modelName = ''model-a'', indexLastUpdated = 1\<rparr>))"
    by (simp add: map_values_def)
  have e: "toLowerCase (topic_name \<lparr>topic_id = ''topic-8-docs'', topic_name = ''DOCS'', description = None,
          createdAt = 0, updatedAt = 0, documentCount = 0, source = None\<rparr>) = toLowerCase (topic_name \<lparr>topic_id = ''topic-1-abc'', topic_name = ''Docs'',
               description = None, createdAt = 1, updatedAt = 1,
               documentCount = 1, source = None\<rparr>)"
    by code_simp
  have f: "commonTopicsIndex mountedManager = Some sharedIndex" by code_simp
  note main = loadCommonDatabase_aborts_on_collision[OF a b loc c d e]
  have g: "map topic_name (getAllTopics (snd (loadCommonDatabase (sharedEnv\<lparr>readIndex := Inr (Some clashIndex)\<rparr>) mountedManager))) = [''Docs'']"
    using main[THEN conjunct2, THEN conjunct1] by (simp add: map_values_def)
  show ?thesis
    using main[THEN conjunct1] f g by blast
qed

lemma commonRegistry_saveTopicsIndex [simp]:
  "commonRegistry (snd (saveTopicsIndex e m)) = commonRegistry m"
  by (simp add: saveTopicsIndex_def commonRegistry_def split: option.splits)

lemma commonRegistry_saveTopicDocuments [simp]:
  "commonRegistry (snd (saveTopicDocuments e t m)) = commonRegistry m"
  by (simp add: saveTopicDocuments_def commonRegistry_def split: option.splits)

lemma commonRegistry_setTopic [simp]:
  "commonRegistry (setTopic t x m) = commonRegistry m"
  by (simp add: setTopic_def commonRegistry_def split: option.splits)

lemma commonRegistry_touchIndex [simp]:
  "commonRegistry (touchIndex t m) = commonRegistry m"
  by (simp add: touchIndex_def commonRegistry_def split: option.splits)

lemma commonRegistry_notify [simp]:
  "commonRegistry (notifyAgentCacheCleanup t m) = commonRegistry m"
  by (simp add: notifyAgentCacheCleanup_def commonRegistry_def)

lemma commonRegistry_updateFolder [simp]:
  "commonRegistry (updateFolderChunkStats e t fp cc m) = commonRegistry m"
  by (simp add: updateFolderChunkStats_def commonRegistry_def)

lemma commonRegistry_removeFolder [simp]:
  "commonRegistry (removeFolderChunkStats e t fp m) = commonRegistry m"
  by (simp add: removeFolderChunkStats_def commonRegistry_def split: option.splits)

lemma commonRegistry_getVectorStore [simp]:
  "commonRegistry (snd (getVectorStore e t m)) = commonRegistry m"
  by (simp add: getVectorStore_def commonRegistry_def Let_def split: option.splits sum.splits)

lemma commonRegistry_fields [simp]:
  "commonRegistry (m\<lparr>topicDocuments := a\<rparr>) = commonRegistry m"
  "commonRegistry (m\<lparr>chunkDeletes := b\<rparr>) = commonRegistry m"
  "commonRegistry (m\<lparr>vectorStoreCache := c\<rparr>) = commonRegistry m"
  "commonRegistry (m\<lparr>vectorStoreFactory := d\<rparr>) = commonRegistry m"
  "commonRegistry (m\<lparr>folderChunkStats := f\<rparr>) = commonRegistry m"
  "commonRegistry (m\<lparr>topicsIndex := g\<rparr>) = commonRegistry m"
  "commonRegistry (m\<lparr>diskDocuments := h\<rparr>) = commonRegistry m"
  by (simp_all add: commonRegistry_def)


lemma snd_eqD: "p = (a, b) \<Longrightarrow> snd p = b"
  by simp


lemma commonRegistry_removeDocumentByFilePath:
  "commonRegistry (snd (removeDocumentByFilePath e t fp m)) = commonRegistry m"
  by (auto simp add: removeDocumentByFilePath_def Let_def split: option.splits prod.splits sum.splits
        dest!: snd_eqD)

lemma commonRegistry_updateTopic:
  "commonRegistry (snd (updateTopic e t un ud m)) = commonRegistry m"
  by (auto simp add: updateTopic_def Let_def split: option.splits prod.splits sum.splits
        dest!: snd_eqD)

lemma commonRegistry_deleteTopic:
  "commonRegistry (snd (deleteTopic e t m)) = commonRegistry m"
  by (auto simp add: deleteTopic_def Let_def split: option.splits prod.splits sum.splits
        dest!: snd_eqD)

lemma commonRegistry_deleteTopicVectorStore:
  "commonRegistry (snd (deleteTopicVectorStore e t m)) = commonRegistry m"
  by (auto simp add: deleteTopicVectorStore_def Let_def split: option.splits prod.splits sum.splits
        dest!: snd_eqD)





subsection \<open>Removing a document\<close>

lemma localTopic_topicDocuments [simp]:
  "localTopic (m\<lparr>topicDocuments := x\<rparr>) t = localTopic m t"
  by (simp add: localTopic_def)

lemma ensure_topicDocuments [simp]:
  "ensureEmbeddingModelCompatibility e t (m\<lparr>topicDocuments := x\<rparr>)
     = ensureEmbeddingModelCompatibility e t m"
  by (simp add: ensureEmbeddingModelCompatibility_def split: option.splits)

lemma isCommonTopic_topicDocuments [simp]:
  "isCommonTopic (m\<lparr>topicDocuments := x\<rparr>) t = isCommonTopic m t"
  by (simp add: isCommonTopic_def commonTopic_def)



lemma map_get_map_set [simp]: "map_get (map_set k v m) k = Some v"
  by (induction m) (auto simp: map_get_def)

lemma map_get_map_set_other [simp]: "k' \<noteq> k \<Longrightarrow> map_get (map_set k v m) k' = map_get m k'"
  by (induction m) (auto simp: map_get_def)




text \<open>
  Claim C2 (the document count of a topic equals the size of its document map after any
  sequence of additions and removals): \<open>removeDocumentByFilePath\<close> deletes the document
  from the map and then opens the vector store outside the \<^verbatim>\<open>try\<close> that guards the
  chunk deletion. Here the store's model is not the active one and not available, so
  \<open>getVectorStore\<close> throws: the map is empty afterwards, the count is still 1.
\<close>

theorem removeDocumentByFilePath_stale_documentCount:
  "fst (removeDocumentByFilePath mismatchEnv ''topic-1-abc'' ''/w/a.md'' docsManager)
     = Inl (Error (mismatchMessage ''Docs'' ''model-b'' ''model-a''))
   \<and> map_get (topicDocuments docsManager) ''topic-1-abc''
     = Some [(''doc-1-xyz'', \<lparr>doc_id = ''doc-1-xyz'', doc_topicId = ''topic-1-abc'',
              doc_name = ''a.md'', filePath = ''/w/a.md'',
              fileType = Markdown, addedAt = 1, doc_chunkCount = 10\<rparr>)]
   \<and> map_option documentCount (localTopic docsManager ''topic-1-abc'') = Some 1
   \<and> map_get (topicDocuments (snd (removeDocumentByFilePath mismatchEnv ''topic-1-abc'' ''/w/a.md'' docsManager))) ''topic-1-abc''
     = Some []
   \<and> map_option documentCount
        (localTopic (snd (removeDocumentByFilePath mismatchEnv ''topic-1-abc'' ''/w/a.md'' docsManager)) ''topic-1-abc'')
     = Some 1"
  by code_simp

subsection \<open>Export and import\<close>




lemma map_fst_enumerate: "map fst (enumerate n xs) = [n..<n + length xs]"
  by (simp add: enumerate_eq_zip)

lemma map_snd_enumerate: "map snd (enumerate n xs) = xs"
  by (simp add: enumerate_eq_zip)









subsection \<open>Search requests\<close>

lemma wellShaped_sendError [simp]:
  "wellShaped (sendError 400 msg)" "wellShaped (sendError 404 msg)"
  "wellShaped (sendError 500 msg)" "wellShaped (sendError 503 msg)"
  by (simp_all add: wellShaped_def sendError_def)


lemma activeModel_runQuery: "activeModel (snd (runQuery se sq t srv)) = activeModel srv"
  by (simp add: runQuery_def split: sum.splits)


lemma activeModel_withAgent: "activeModel (snd (withAgent se sq t tm srv)) = activeModel srv"
  by (simp add: withAgent_def activeModel_runQuery split: option.splits sum.splits prod.splits)





text \<open>
  Claim C3, counterexample: the topic's stored model is \<^verbatim>\<open>model-b\<close>, the active one
  \<^verbatim>\<open>model-a\<close>; the switch succeeds, then the topic's vector store is not found. The
  request neither succeeds nor fails with a message that names the two models.
\<close>

theorem search_after_switch_unrelated_failure:
  "topicModelOf (noStoreEnv modelBSearchEnv)
      \<lparr>topic_id = ''topic-1-abc'', topic_name = ''Docs'', description = None, createdAt = 1,
       updatedAt = 1, documentCount = 1, source = Some Local\<rparr>
      (docsManager\<lparr>vectorStoreCache := []\<rparr>) docsServer = Some ''model-b''
   \<and> activeModel docsServer = ''model-a''
   \<and> fst (handleSearch (noStoreEnv modelBSearchEnv) (Some ''test'') None None docsServer)
       = \<lparr>status = 500, body = ErrorBody ''Vector store not available for topic''\<rparr>
   \<and> \<not> sublist ''model-a'' ''Vector store not available for topic''
   \<and> \<not> sublist ''model-b'' ''Vector store not available for topic''"
  by code_simp

lemma sublist_mid2: "sublist x (a @ b @ c @ x @ d)"
proof -
  have "a @ b @ c @ x @ d = (a @ b @ c) @ x @ d" by simp
  then show ?thesis by (simp only: sublist_appendI)
qed

lemma sublist_mid3: "sublist x (a @ b @ c @ y @ d @ x @ f)"
proof -
  have "a @ b @ c @ y @ d @ x @ f = (a @ b @ c @ y @ d) @ x @ f" by simp
  then show ?thesis by (simp only: sublist_appendI)
qed

lemma switchFailedMessage_names:
  "sublist topicModel (switchFailedMessage n topicModel current msg)"
  "sublist current (switchFailedMessage n topicModel current msg)"
  unfolding switchFailedMessage_def by (rule sublist_mid2, rule sublist_mid3)

lemma mismatchMessage_names:
  "sublist storedModel (mismatchMessage n storedModel current)"
  "sublist current (mismatchMessage n storedModel current)"
  unfolding mismatchMessage_def by (rule sublist_mid2, rule sublist_mid3)

text \<open>
  Claim C3, as amended: a search resolves to a topic whose stored model, as
  \<open>getTopicStats\<close> reports it, differs from the active model. When the switch fails the
  answer is 500 with a message that contains both model names, and the server is
  unchanged. When the switch succeeds the request goes on as any request does, on an
  emptied agent cache and with the topic's model active: it may still fail for another
  reason, but an answer with status 200 is only given with the topic's model active. And
  \<open>getVectorStore\<close> throws, with a message that contains both model names, when the
  stored model differs from the active one and is not listed as downloaded or local.
\<close>

theorem search_model_mismatch:
  assumes q: "truthy q = Some sq" and tm: "topicManager srv = Some tm"
      and target: "resolveTarget tm topicParam = Inr (Some t)"
      and stored: "topicModelOf se t tm srv = Some topicModel"
      and mismatch: "topicModel \<noteq> activeModel srv"
  shows "(\<forall>msg. initializeError se = Some msg \<longrightarrow>
            handleSearch se q limitParam topicParam srv
              = (\<lparr>status = 500,
                  body = ErrorBody (switchFailedMessage (topic_name t) topicModel (activeModel srv) msg)\<rparr>,
                 srv)
            \<and> sublist topicModel (switchFailedMessage (topic_name t) topicModel (activeModel srv) msg)
            \<and> sublist (activeModel srv)
                 (switchFailedMessage (topic_name t) topicModel (activeModel srv) msg))
       \<and> (initializeError se = None \<longrightarrow>
            handleSearch se q limitParam topicParam srv
              = withAgent se sq t tm (srv\<lparr>activeModel := topicModel, agentCache := []\<rparr>)
            \<and> activeModel (snd (handleSearch se q limitParam topicParam srv)) = topicModel)
       \<and> (status (fst (handleSearch se q limitParam topicParam srv)) = 200 \<longrightarrow>
            activeModel (snd (handleSearch se q limitParam topicParam srv)) = topicModel)
       \<and> (\<forall>e topicId m fac metadata storedModel.
            vectorStoreFactory m = Some fac \<longrightarrow> getStoreMetadata e topicId = Some metadata \<longrightarrow>
            truthy (meta_embeddingModel metadata) = Some storedModel \<longrightarrow>
            storedModel \<noteq> currentModel e \<longrightarrow>
            \<not> list_ex (\<lambda>am. model_name am = storedModel \<and> (downloaded am \<or> model_source am = ''local''))
                 (listAvailableModels e) \<longrightarrow>
            (\<exists>msg. getVectorStore e topicId m = (Inl (Error msg), m)
                   \<and> sublist storedModel msg \<and> sublist (currentModel e) msg))"
proof -
  have fail: "handleSearch se q limitParam topicParam srv
              = (\<lparr>status = 500,
                  body = ErrorBody (switchFailedMessage (topic_name t) topicModel (activeModel srv) msg)\<rparr>,
                 srv)" if "initializeError se = Some msg" for msg
    using that assms
    by (simp add: handleSearch_def searchTopic_def embeddingInitialize_def sendError_def)
  have ok: "handleSearch se q limitParam topicParam srv
              = withAgent se sq t tm (srv\<lparr>activeModel := topicModel, agentCache := []\<rparr>)"
    if "initializeError se = None"
    using that assms
    by (simp add: handleSearch_def searchTopic_def embeddingInitialize_def)
  have active: "activeModel (snd (handleSearch se q limitParam topicParam srv)) = topicModel"
    if "initializeError se = None"
    using ok[OF that] by (simp add: activeModel_withAgent)
  have twohundred: "activeModel (snd (handleSearch se q limitParam topicParam srv)) = topicModel"
    if "status (fst (handleSearch se q limitParam topicParam srv)) = 200"
  proof (cases "initializeError se")
    case None
    then show ?thesis by (rule active)
  next
    case (Some msg)
    from fail[OF this] that show ?thesis by simp
  qed
  have gv: "\<exists>msg. getVectorStore e topicId m = (Inl (Error msg), m)
                   \<and> sublist storedModel msg \<and> sublist (currentModel e) msg"
    if "vectorStoreFactory m = Some fac" "getStoreMetadata e topicId = Some metadata"
       "truthy (meta_embeddingModel metadata) = Some storedModel"
       "storedModel \<noteq> currentModel e"
       "\<not> list_ex (\<lambda>am. model_name am = storedModel \<and> (downloaded am \<or> model_source am = ''local''))
                 (listAvailableModels e)"
    for e topicId m fac metadata storedModel
  proof -
    let ?n = "case localTopic m topicId of Some t \<Rightarrow> topic_name t | None \<Rightarrow> topicId"
    have "getVectorStore e topicId m
            = (Inl (Error (mismatchMessage ?n storedModel (currentModel e))), m)"
      using that
      by (simp add: getVectorStore_def ensureEmbeddingModelCompatibility_def Let_def)
    then show ?thesis
      using mismatchMessage_names by blast
  qed
  show ?thesis
    using fail ok active twohundred gv switchFailedMessage_names by blast
qed

theorem search_model_mismatch_witness:
  "handleSearch (modelBSearchEnv\<lparr>initializeError := Some ''no such model''\<rparr>)
       (Some ''test'') None None docsServer
     = (\<lparr>status = 500,
         body = ErrorBody (switchFailedMessage ''Docs'' ''model-b'' ''model-a'' ''no such model'')\<rparr>,
        docsServer)
   \<and> sublist ''model-b'' (switchFailedMessage ''Docs'' ''model-b'' ''model-a'' ''no such model'')
   \<and> sublist ''model-a'' (switchFailedMessage ''Docs'' ''model-b'' ''model-a'' ''no such model'')
   \<and> status (fst (handleSearch modelBSearchEnv (Some ''test'') None None docsServer)) = 200
   \<and> activeModel (snd (handleSearch modelBSearchEnv (Some ''test'') None None docsServer)) = ''model-b''
   \<and> (\<exists>msg. getVectorStore mismatchEnv ''topic-1-abc'' docsManager = (Inl (Error msg), docsManager)
            \<and> sublist ''model-b'' msg \<and> sublist ''model-a'' msg)"
proof -
  let ?tm = "docsManager\<lparr>vectorStoreCache := []\<rparr>"
  let ?t = "\<lparr>topic_id = ''topic-1-abc'', topic_name = ''Docs'', description = None, createdAt = 1,
             updatedAt = 1, documentCount = 1, source = Some Local\<rparr>"
  let ?failing = "modelBSearchEnv\<lparr>initializeError := Some ''no such model''\<rparr>"
  have q: "truthy (Some ''test'') = Some ''test''" by (simp add: truthy_def)
  have srv: "topicManager docsServer = Some ?tm" "activeModel docsServer = ''model-a''"
    by (simp_all add: docsServer_def)
  have r: "resolveTarget ?tm None = Inr (Some ?t)" by code_simp
  have m1: "topicModelOf ?failing ?t ?tm docsServer = Some ''model-b''" by code_simp
  have m2: "topicModelOf modelBSearchEnv ?t ?tm docsServer = Some ''model-b''" by code_simp
  have ne: "''model-b'' \<noteq> activeModel docsServer" by (simp add: srv)
  have i1: "initializeError ?failing = Some ''no such model''" by simp
  have i2: "initializeError modelBSearchEnv = None"
    by (simp add: modelBSearchEnv_def sampleSearchEnv_def)
  have ok: "status (fst (handleSearch modelBSearchEnv (Some ''test'') None None docsServer)) = 200"
    by code_simp
  have f: "vectorStoreFactory docsManager = Some \<lparr>stores = [''topic-1-abc'']\<rparr>" by code_simp
  have md: "getStoreMetadata mismatchEnv ''topic-1-abc''
              = Some \<lparr>meta_chunkCount = 10, meta_embeddingModel = Some ''model-b''\<rparr>"
    by (simp add: mismatchEnv_def)
  have tr: "truthy (meta_embeddingModel \<lparr>meta_chunkCount = 10, meta_embeddingModel = Some ''model-b''\<rparr>)
              = Some ''model-b''"
    by (simp add: truthy_def)
  have cur: "currentModel mismatchEnv = ''model-a''" "listAvailableModels mismatchEnv = []"
    by (simp_all add: mismatchEnv_def sampleEnv_def)
  have ne2: "''model-b'' \<noteq> currentModel mismatchEnv" by (simp add: cur)
  have av: "\<not> list_ex (\<lambda>am. model_name am = ''model-b'' \<and> (downloaded am \<or> model_source am = ''local''))
                 (listAvailableModels mismatchEnv)"
    by (simp add: cur)
  note gv = search_model_mismatch[OF q srv(1) r m2 ne, of None, THEN conjunct2, THEN conjunct2,
      THEN conjunct2, rule_format, OF f md tr ne2 av]
  note failing = search_model_mismatch[OF q srv(1) r m1 ne, of None, THEN conjunct1, rule_format, OF i1]
  note switched = search_model_mismatch[OF q srv(1) r m2 ne, of None, THEN conjunct2, THEN conjunct2,
      THEN conjunct1, rule_format, OF ok]
  show ?thesis
    using failing switched ok gv srv(2) cur(1) by simp
qed

subsection \<open>Pause and resume\<close>





lemma workerInv_control [simp]: "workerInv (w\<lparr>control := c\<rparr>) = workerInv w"
  by (simp add: workerInv_def)




lemma existingFiles_handleFile [simp]: "existingFiles (handleFile w) = existingFiles w"
  by (simp add: handleFile_def Let_def)

lemma existingFiles_step [simp]: "existingFiles (worker (step ev s)) = existingFiles (worker s)"
  by (cases ev) (auto simp add: step_def Let_def split: Control.splits prod.splits)

lemma existingFiles_run [simp]: "existingFiles (worker (run evs s)) = existingFiles (worker s)"
  by (induction evs arbitrary: s) simp_all







subsection \<open>Further properties of the folder tree and the document count\<close>

lemma calc_inv:
  "(leafFiles node \<longrightarrow>
      nodeInv (fst (calculateNodeTotal node))
      \<and> chunkCount (fst (calculateNodeTotal node)) = snd (calculateNodeTotal node)
      \<and> leafFiles (fst (calculateNodeTotal node)))"
  "(list_all (\<lambda>kc. leafFiles (snd kc)) ch \<longrightarrow>
      list_all (\<lambda>kc. nodeInv (snd kc)) (fst (calculateTotals ch tot))
      \<and> snd (calculateTotals ch tot) = tot + sumCounts (fst (calculateTotals ch tot))
      \<and> list_all (\<lambda>kc. leafFiles (snd kc)) (fst (calculateTotals ch tot)))"
proof (induction node and ch tot rule: calculateNodeTotal_calculateTotals.induct)
  case (1 n p f c ch)
  show ?case
  proof (cases f)
    case True
    then show ?thesis by simp
  next
    case False
    with 1 show ?thesis
      by (auto simp add: sumCounts_def split: prod.splits)
  qed
next
  case (2 tot)
  then show ?case by (simp add: sumCounts_def)
next
  case (3 k child rest tot)
  show ?case
  proof
    assume a: "list_all (\<lambda>kc. leafFiles (snd kc)) ((k, child) # rest)"
    obtain child' t where c: "calculateNodeTotal child = (child', t)"
      by (cases "calculateNodeTotal child")
    obtain rest' tot' where r: "calculateTotals rest (tot + t) = (rest', tot')"
      by (cases "calculateTotals rest (tot + t)")
    from a have lc: "leafFiles child" and lr: "list_all (\<lambda>kc. leafFiles (snd kc)) rest" by simp_all
    from 3(1) lc c have i1: "nodeInv child'" "chunkCount child' = t" "leafFiles child'" by simp_all
    from 3(2)[OF c[symmetric] refl] lr r
    have i2: "list_all (\<lambda>kc. nodeInv (snd kc)) rest'" "tot' = tot + t + sumCounts rest'"
      "list_all (\<lambda>kc. leafFiles (snd kc)) rest'"
      by simp_all
    show "list_all (\<lambda>kc. nodeInv (snd kc)) (fst (calculateTotals ((k, child) # rest) tot))
      \<and> snd (calculateTotals ((k, child) # rest) tot) = tot + sumCounts (fst (calculateTotals ((k, child) # rest) tot))
      \<and> list_all (\<lambda>kc. leafFiles (snd kc)) (fst (calculateTotals ((k, child) # rest) tot))"
      using c r i1 i2 by (simp add: sumCounts_def)
  qed
qed

text \<open>
  On a tree in which no file node has children, \<open>recalculateFolderTotals\<close> establishes
  the invariant of claim C1, whatever the counts were before.
\<close>

theorem recalculateFolderTotals_leaf_files:
  assumes "list_all (\<lambda>kc. leafFiles (snd kc)) (roots stats)"
  shows "statsInv (recalculateFolderTotals stats)"
proof -
  obtain roots' tot' where c: "calculateTotals (roots stats) 0 = (roots', tot')"
    by (cases "calculateTotals (roots stats) 0")
  from calc_inv(2)[of "roots stats" 0] assms c
  have "list_all (\<lambda>kc. nodeInv (snd kc)) roots'" "tot' = sumCounts roots'"
    by simp_all
  then show ?thesis
    by (simp add: statsInv_def recalculateFolderTotals_def c sumCounts_def)
qed

theorem recalculateFolderTotals_leaf_files_witness:
  "statsInv (recalculateFolderTotals
     \<lparr>roots = [(''/w'', FolderChunkNode ''w'' ''/w'' False 0
                [(''a.md'', FolderChunkNode ''a.md'' ''/w/a.md'' True 10 []),
                 (''sub'', FolderChunkNode ''sub'' ''/w/sub'' False 0
                    [(''b.md'', FolderChunkNode ''b.md'' ''/w/sub/b.md'' True 4 [])])])],
      totalChunks = 0, lastUpdated = 1\<rparr>)
   \<and> totalChunks (recalculateFolderTotals
     \<lparr>roots = [(''/w'', FolderChunkNode ''w'' ''/w'' False 0
                [(''a.md'', FolderChunkNode ''a.md'' ''/w/a.md'' True 10 []),
                 (''sub'', FolderChunkNode ''sub'' ''/w/sub'' False 0
                    [(''b.md'', FolderChunkNode ''b.md'' ''/w/sub/b.md'' True 4 [])])])],
      totalChunks = 0, lastUpdated = 1\<rparr>) = 14"
proof -
  let ?stats = "\<lparr>roots = [(''/w'', FolderChunkNode ''w'' ''/w'' False 0
                [(''a.md'', FolderChunkNode ''a.md'' ''/w/a.md'' True 10 []),
                 (''sub'', FolderChunkNode ''sub'' ''/w/sub'' False 0
                    [(''b.md'', FolderChunkNode ''b.md'' ''/w/sub/b.md'' True 4 [])])])],
      totalChunks = 0, lastUpdated = 1\<rparr>"
  have h: "list_all (\<lambda>kc. leafFiles (snd kc)) (roots ?stats)" by simp
  have t: "totalChunks (recalculateFolderTotals ?stats) = 14" by code_simp
  show ?thesis
    using recalculateFolderTotals_leaf_files[OF h] t by simp
qed

lemma topicsIndex_updateFolder [simp]:
  "topicsIndex (updateFolderChunkStats e t fp cc m) = topicsIndex m"
  by (simp add: updateFolderChunkStats_def)

lemma topicsIndex_addEach: "topicsIndex (fst (addEach e t files (m, rs))) = topicsIndex m"
proof (induction files arbitrary: m rs)
  case Nil
  then show ?case by simp
next
  case (Cons f files)
  obtain fp fe where f: "f = (fp, fe)" by (cases f)
  show ?case
    by (cases "pipeline fe") (simp_all add: f Cons.IH Let_def)
qed

text \<open>
  \<open>addDocuments\<close> on a topic of the local index leaves the topic's document count equal
  to the size of its document map, also when files fail or saving throws.
\<close>

theorem addDocuments_documentCount:
  assumes "topicsIndex m = Some idx" "map_get (topics idx) topicId = Some topic"
  shows "map_option documentCount (localTopic (snd (addDocuments e topicId files m)) topicId)
           = Some (case map_get (topicDocuments (snd (addDocuments e topicId files m))) topicId of
                     None \<Rightarrow> 0 | Some documents \<Rightarrow> length documents)"
proof -
  obtain m1 rs where a: "addEach e topicId files (m, []) = (m1, rs)"
    by (cases "addEach e topicId files (m, [])")
  have i: "topicsIndex m1 = Some idx"
    using topicsIndex_addEach[of e topicId files m "[]"] a assms(1) by simp
  show ?thesis
    using assms i
    by (simp add: addDocuments_def a Let_def saveTopicsIndex_def saveTopicDocuments_def
        setTopic_def touchIndex_def localTopic_def
        split: option.splits)
qed


theorem addDocuments_documentCount_witness:
  "map_option documentCount
     (localTopic (snd (addDocuments sampleEnv ''topic-1-abc''
        [(''/w/b.md'', \<lparr>pipeline = PipelineStored 4, freshDocId = ''doc-2-b'', fileNow = 2\<rparr>),
         (''/w/c.md'', \<lparr>pipeline = PipelineFailed, freshDocId = ''doc-3-c'', fileNow = 3\<rparr>)]
        docsManager)) ''topic-1-abc'') = Some 2"
proof -
  let ?t = "\<lparr>topic_id = ''topic-1-abc'', topic_name = ''Docs'', description = None,
             createdAt = 1, updatedAt = 1, documentCount = 1, source = None\<rparr>"
  let ?idx = "\<lparr>topics = [(''topic-1-abc'', ?t)], modelName = ''model-a'', indexLastUpdated = 1\<rparr>"
  let ?files = "[(''/w/b.md'', \<lparr>pipeline = PipelineStored 4, freshDocId = ''doc-2-b'', fileNow = 2\<rparr>),
         (''/w/c.md'', \<lparr>pipeline = PipelineFailed, freshDocId = ''doc-3-c'', fileNow = 3\<rparr>)]"
  have a: "topicsIndex docsManager = Some ?idx" by code_simp
  have b: "map_get (topics ?idx) ''topic-1-abc'' = Some ?t" by code_simp
  have c: "map_option length
             (map_get (topicDocuments (snd (addDocuments sampleEnv ''topic-1-abc'' ?files docsManager)))
                ''topic-1-abc'') = Some 2"
    by code_simp
  show ?thesis
    using addDocuments_documentCount[OF a b, of sampleEnv ?files] c
    by (auto split: option.splits)
qed

end
